theory Spec2Isabelle
  imports Main "HOL-Library.Sublist"
begin

section \<open>Strings\<close>

text \<open>
  A Go string is a sequence of bytes, modelled as \<open>string\<close> (a list of 8-bit characters).
  The three library functions the classifier calls are modelled on ASCII text:
  \<open>strings.ToUpper\<close> maps the letters a..z to A..Z and keeps every other byte,
  \<open>strings.TrimSpace\<close> removes leading and trailing tab, line feed, vertical tab, form feed,
  carriage return and space. On text with non-ASCII runes Go also applies the Unicode case
  mapping and trims Unicode white space; that part of the library is outside this model.
\<close>

definition toUpperByte :: "char \<Rightarrow> char" where
  "toUpperByte c =
     (case map_of (zip ''abcdefghijklmnopqrstuvwxyz'' ''ABCDEFGHIJKLMNOPQRSTUVWXYZ'') c of
        Some u \<Rightarrow> u
      | None \<Rightarrow> c)"

definition ToUpper :: "string \<Rightarrow> string" where
  "ToUpper s = map toUpperByte s"

definition isSpace :: "char \<Rightarrow> bool" where
  "isSpace c = (c \<in> set [CHR 0x09, CHR 0x0A, CHR 0x0B, CHR 0x0C, CHR 0x0D, CHR '' ''])"

definition TrimSpace :: "string \<Rightarrow> string" where
  "TrimSpace s = rev (dropWhile isSpace (rev (dropWhile isSpace s)))"

text \<open>\<open>strings.HasPrefix(s, p)\<close>: \<open>len(s) >= len(p) && s[:len(p)] == p\<close>.\<close>

definition HasPrefix :: "string \<Rightarrow> string \<Rightarrow> bool" where
  "HasPrefix s p = (length p \<le> length s \<and> take (length p) s = p)"

text \<open>\<open>strings.Contains(s, sub)\<close>: \<open>sub\<close> occurs at some offset of \<open>s\<close>.\<close>

fun Contains :: "string \<Rightarrow> string \<Rightarrow> bool" where
  "Contains [] sub = (sub = [])"
| "Contains (c # s) sub = (HasPrefix (c # s) sub \<or> Contains s sub)"

text \<open>\<open>strings.Join(elems, sep)\<close>.\<close>

fun Join :: "string list \<Rightarrow> string \<Rightarrow> string" where
  "Join [] sep = []"
| "Join [x] sep = x"
| "Join (x # y # zs) sep = x @ sep @ Join (y # zs) sep"

section \<open>Classifier (db/validator.go)\<close>

datatype QueryType =
    QueryTypeUnknown
  | QueryTypeSelect
  | QueryTypeInsert
  | QueryTypeUpdate
  | QueryTypeDelete
  | QueryTypeAlter
  | QueryTypeShow
  | QueryTypeDescribe
  | QueryTypeExplain
  | QueryTypeDrop
  | QueryTypeTruncate
  | QueryTypeCreate
  | QueryTypeGrant
  | QueryTypeRevoke
  | QueryTypeSet
  | QueryTypeUse

definition prefixMap :: "(string \<times> QueryType) list" where
  "prefixMap =
     [(''SELECT'', QueryTypeSelect),
      (''INSERT'', QueryTypeInsert),
      (''UPDATE'', QueryTypeUpdate),
      (''DELETE'', QueryTypeDelete),
      (''ALTER'', QueryTypeAlter),
      (''SHOW'', QueryTypeShow),
      (''DESCRIBE'', QueryTypeDescribe),
      (''DESC '', QueryTypeDescribe),
      (''EXPLAIN'', QueryTypeExplain),
      (''DROP'', QueryTypeDrop),
      (''TRUNCATE'', QueryTypeTruncate),
      (''CREATE'', QueryTypeCreate),
      (''GRANT'', QueryTypeGrant),
      (''REVOKE'', QueryTypeRevoke),
      (''SET'', QueryTypeSet),
      (''USE'', QueryTypeUse)]"

text \<open>The loop of \<open>DetectQueryType\<close>: the first entry whose prefix matches decides.\<close>

fun firstPrefix :: "string \<Rightarrow> (string \<times> QueryType) list \<Rightarrow> QueryType" where
  "firstPrefix q [] = QueryTypeUnknown"
| "firstPrefix q ((p, t) # pms) = (if HasPrefix q p then t else firstPrefix q pms)"

definition DetectQueryType :: "string \<Rightarrow> QueryType" where
  "DetectQueryType query = firstPrefix (TrimSpace (ToUpper query)) prefixMap"

fun GetQueryTypeLabel :: "QueryType \<Rightarrow> string" where
  "GetQueryTypeLabel QueryTypeUnknown = ''UNKNOWN''"
| "GetQueryTypeLabel QueryTypeSelect = ''SELECT''"
| "GetQueryTypeLabel QueryTypeInsert = ''INSERT''"
| "GetQueryTypeLabel QueryTypeUpdate = ''UPDATE''"
| "GetQueryTypeLabel QueryTypeDelete = ''DELETE''"
| "GetQueryTypeLabel QueryTypeAlter = ''ALTER''"
| "GetQueryTypeLabel QueryTypeShow = ''SHOW''"
| "GetQueryTypeLabel QueryTypeDescribe = ''DESCRIBE''"
| "GetQueryTypeLabel QueryTypeExplain = ''EXPLAIN''"
| "GetQueryTypeLabel QueryTypeDrop = ''DROP''"
| "GetQueryTypeLabel QueryTypeTruncate = ''TRUNCATE''"
| "GetQueryTypeLabel QueryTypeCreate = ''CREATE''"
| "GetQueryTypeLabel QueryTypeGrant = ''GRANT''"
| "GetQueryTypeLabel QueryTypeRevoke = ''REVOKE''"
| "GetQueryTypeLabel QueryTypeSet = ''SET''"
| "GetQueryTypeLabel QueryTypeUse = ''USE''"

fun IsReadOnlyQueryType :: "QueryType \<Rightarrow> bool" where
  "IsReadOnlyQueryType QueryTypeSelect = True"
| "IsReadOnlyQueryType QueryTypeShow = True"
| "IsReadOnlyQueryType QueryTypeDescribe = True"
| "IsReadOnlyQueryType QueryTypeExplain = True"
| "IsReadOnlyQueryType _ = False"

fun IsDangerousQueryType :: "QueryType \<Rightarrow> bool" where
  "IsDangerousQueryType QueryTypeDrop = True"
| "IsDangerousQueryType QueryTypeTruncate = True"
| "IsDangerousQueryType QueryTypeCreate = True"
| "IsDangerousQueryType QueryTypeGrant = True"
| "IsDangerousQueryType QueryTypeRevoke = True"
| "IsDangerousQueryType _ = False"

subsection \<open>Errors\<close>

text \<open>
  The code builds every error with \<open>fmt.Errorf\<close>, so an error is its message. The model
  pairs the message with the class of the taxonomy it belongs to (\<open>ConfigurationError\<close>
  for the errors of configuration loading); a driver error wrapped by \<open>%w\<close> contributes
  its own message, a string handed in by the driver.
\<close>

datatype ErrorKind =
    UnknownConnection
  | ConnectionFailure
  | ReadOnlyViolation
  | DangerousOperationBlocked
  | SensitiveAccessBlocked
  | QueryTypeMismatch
  | ExecutionFailure
  | ResultDecodeFailure
  | ConfigurationError

type_synonym error = "ErrorKind \<times> string"

text \<open>The first loop of \<open>ValidateQueryType\<close>: is the detected type one of the allowed ones.\<close>

fun allowedLoop :: "QueryType \<Rightarrow> QueryType list \<Rightarrow> bool" where
  "allowedLoop detected [] = False"
| "allowedLoop detected (qt # qts) = (if detected = qt then True else allowedLoop detected qts)"

definition ValidateQueryType :: "string \<Rightarrow> QueryType list \<Rightarrow> error option" where
  "ValidateQueryType query allowed =
     (let detected = DetectQueryType query in
      if allowedLoop detected allowed then None
      else
        let expectedLabels = map GetQueryTypeLabel allowed;
            expected = Join expectedLabels ''/'';
            got = GetQueryTypeLabel detected
        in Some (QueryTypeMismatch,
                 ''query type mismatch: expected '' @ expected @ '', got '' @ got @
                 ''. Use the appropriate tool for this query type''))"

section \<open>Text predicates of the connection manager (db/connection.go)\<close>

text \<open>The loop shared by \<open>isReadOnlyQuery\<close> and \<open>isDangerousQuery\<close>.\<close>

fun anyPrefix :: "string \<Rightarrow> string list \<Rightarrow> bool" where
  "anyPrefix q [] = False"
| "anyPrefix q (p # ps) = (if HasPrefix q p then True else anyPrefix q ps)"

definition isReadOnlyQuery :: "string \<Rightarrow> bool" where
  "isReadOnlyQuery query =
     anyPrefix (TrimSpace (ToUpper query)) [''SELECT'', ''SHOW'', ''DESCRIBE'', ''DESC'', ''EXPLAIN'']"

definition isDangerousQuery :: "string \<Rightarrow> bool" where
  "isDangerousQuery query =
     anyPrefix (TrimSpace (ToUpper query))
       [''DROP'', ''ALTER'', ''TRUNCATE'', ''CREATE'', ''GRANT'', ''REVOKE'']"

definition isSensitiveQuery :: "string \<Rightarrow> bool" where
  "isSensitiveQuery query =
     (let q = ToUpper query in
      if Contains q ''SHOW GRANTS'' then True
      else if Contains q ''MYSQL.USER'' then True
      else if Contains q ''USER_PRIVILEGES'' then True
      else if Contains q ''SHOW PROCESSLIST'' \<or> Contains q ''SHOW FULL PROCESSLIST'' then True
      else False)"

section \<open>Configuration (package config)\<close>

record ConnectionConfig =
  Host :: string
  Port :: int
  User :: string
  Password :: string
  Database :: string
  ReadOnly :: bool
  MaxRows :: int

text \<open>
  The process environment is a map from variable names to values; \<open>os.Getenv\<close> returns
  the empty string for a variable that is not set.
\<close>

definition Getenv :: "(string \<rightharpoonup> string) \<Rightarrow> string \<Rightarrow> string" where
  "Getenv env key = (case env key of None \<Rightarrow> [] | Some v \<Rightarrow> v)"

text \<open>
  The regular expression of \<open>expandEnvVar\<close> is anchored at both ends: it matches a value
  that starts with a dollar sign and an opening brace, ends with a closing brace, and has in
  between one or more characters none of which is a closing brace. \<open>envVarName\<close> returns the
  captured group of a match.
\<close>

definition envVarName :: "string \<Rightarrow> string option" where
  "envVarName val =
     (let inner = butlast (drop 2 val) in
      if HasPrefix val ''${'' \<and> 2 < length val \<and> last val = CHR ''}'' \<and>
         inner \<noteq> [] \<and> CHR ''}'' \<notin> set inner
      then Some inner else None)"

definition expandEnvVar :: "(string \<rightharpoonup> string) \<Rightarrow> string \<Rightarrow> string" where
  "expandEnvVar env val = (case envVarName val of Some name \<Rightarrow> Getenv env name | None \<Rightarrow> val)"

definition quoted :: "string \<Rightarrow> string" where
  "quoted s = [CHR 0x27] @ s @ [CHR 0x27]"

text \<open>
  \<open>validateAndApplyDefaults\<close> updates the connection in place, also when it returns an
  error; the model returns the error (if any) together with the updated connection.
\<close>

definition validateAndApplyDefaults ::
    "(string \<rightharpoonup> string) \<Rightarrow> string \<Rightarrow> ConnectionConfig \<Rightarrow> error option \<times> ConnectionConfig" where
  "validateAndApplyDefaults env name conn =
     (let conn1 = conn\<lparr>Host := expandEnvVar env (Host conn)\<rparr>;
          conn2 = conn1\<lparr>User := expandEnvVar env (User conn1)\<rparr>;
          conn3 = conn2\<lparr>Password := expandEnvVar env (Password conn2)\<rparr>;
          conn4 = conn3\<lparr>Database := expandEnvVar env (Database conn3)\<rparr>
      in
      if Host conn4 = [] then
        (Some (ConfigurationError, ''connection '' @ quoted name @ '': host is required''), conn4)
      else if User conn4 = [] then
        (Some (ConfigurationError, ''connection '' @ quoted name @ '': user is required''), conn4)
      else if Database conn4 = [] then
        (Some (ConfigurationError, ''connection '' @ quoted name @ '': database is required''), conn4)
      else
        let conn5 = (if Port conn4 = 0 then conn4\<lparr>Port := 3306\<rparr> else conn4);
            conn6 = (if MaxRows conn5 = 0 then conn5\<lparr>MaxRows := 1000\<rparr> else conn5)
        in (None, conn6))"

text \<open>
  \<open>LoadConfig\<close> after the file has been read and parsed. Its argument is what the two
  library calls gave: a read error, a parse error, or the parsed connections in the order in
  which the loop visits the map. The loop stops at the first connection that fails.
\<close>

fun validateLoop ::
    "(string \<rightharpoonup> string) \<Rightarrow> (string \<times> ConnectionConfig) list \<Rightarrow>
     error + (string \<times> ConnectionConfig) list" where
  "validateLoop env [] = Inr []"
| "validateLoop env ((name, conn) # rest) =
     (case validateAndApplyDefaults env name conn of
        (Some err, _) \<Rightarrow> Inl err
      | (None, conn') \<Rightarrow>
          (case validateLoop env rest of
             Inl err \<Rightarrow> Inl err
           | Inr done \<Rightarrow> Inr ((name, conn') # done)))"

definition LoadConfig ::
    "(string \<rightharpoonup> string) \<Rightarrow> string + (string + (string \<times> ConnectionConfig) list) \<Rightarrow>
     error + (string \<times> ConnectionConfig) list" where
  "LoadConfig env file =
     (case file of
        Inl err \<Rightarrow> Inl (ConfigurationError, ''failed to read config file: '' @ err)
      | Inr (Inl err) \<Rightarrow> Inl (ConfigurationError, ''failed to parse config file: '' @ err)
      | Inr (Inr conns) \<Rightarrow>
          (case validateLoop env conns of
             Inl err \<Rightarrow> Inl err
           | Inr done \<Rightarrow>
               if length done = 0
               then Inl (ConfigurationError, ''no connections defined in config'')
               else Inr done))"

text \<open>Decimal rendering of an integer, as the verb \<open>%d\<close> prints it.\<close>

fun natDigits :: "nat \<Rightarrow> string" where
  "natDigits n =
     (if n < 10 then [''0123456789'' ! n]
      else natDigits (n div 10) @ [''0123456789'' ! (n mod 10)])"

declare natDigits.simps [simp del]

definition Itoa :: "int \<Rightarrow> string" where
  "Itoa i = (if i < 0 then ''-'' @ natDigits (nat (- i)) else natDigits (nat i))"

definition DSN :: "ConnectionConfig \<Rightarrow> string" where
  "DSN c =
     User c @ '':'' @ Password c @ ''@tcp('' @ Host c @ '':'' @ Itoa (Port c) @ '')/'' @ Database c @
     ''?parseTime=true&timeout=30s&readTimeout=30s&writeTimeout=30s''"

section \<open>Connection manager (db/connection.go)\<close>

subsection \<open>The database driver\<close>

text \<open>
  A handle (\<open>*sql.DB\<close>) is an identifier. The manager's calls on the \<open>database/sql\<close>
  package are recorded, in order, as events; what the package answers is given by a
  \<open>Driver\<close>, whose answers may depend on the calls issued before. The model follows one
  caller at a time: the locks of \<open>Manager\<close> and the interleaving of callers are outside it.
\<close>

type_synonym handle = nat

datatype event =
    EvOpen string
  | EvSetMaxOpenConns handle int
  | EvSetMaxIdleConns handle int
  | EvPing handle
  | EvClose handle
  | EvQuery handle string
  | EvExec handle string

text \<open>
  A column value as the driver delivers it: raw bytes, or a scalar that the code passes on
  unchanged (text, integer, boolean, NULL, or another scalar kept by its rendering).
\<close>

datatype colval =
    VBytes string
  | VString string
  | VInt int
  | VBool bool
  | VNull
  | VOther string

text \<open>
  A result cursor (\<open>*sql.Rows\<close>): what \<open>Columns()\<close> answers, and the rows that
  \<open>Next()\<close> delivers one by one, each with what the driver holds for it: the values of the
  row, or the error of reading it.
\<close>

record sqlRows =
  columnsResult :: "string + string list"
  pending :: "(string + colval list) list"

record Driver =
  sqlOpen :: "event list \<Rightarrow> string \<Rightarrow> string + handle"
  dbPing :: "event list \<Rightarrow> handle \<Rightarrow> string option"
  dbQuery :: "event list \<Rightarrow> handle \<Rightarrow> string \<Rightarrow> string + sqlRows"
  dbExec :: "event list \<Rightarrow> handle \<Rightarrow> string \<Rightarrow> string + (int \<times> int)"

text \<open>
  \<open>dbExec\<close> answers an error or the pair (rows affected, last insert id); the code drops the
  errors of \<open>RowsAffected()\<close> and \<open>LastInsertId()\<close> and keeps the numbers.
\<close>

record Manager =
  config :: "string \<rightharpoonup> ConnectionConfig"
  connections :: "string \<rightharpoonup> handle"
  calls :: "event list"

definition NewManager :: "(string \<rightharpoonup> ConnectionConfig) \<Rightarrow> Manager" where
  "NewManager cfg = \<lparr>config = cfg, connections = Map.empty, calls = []\<rparr>"

definition issue :: "Manager \<Rightarrow> event list \<Rightarrow> Manager" where
  "issue m evs = m\<lparr>calls := calls m @ evs\<rparr>"

subsection \<open>GetConnection\<close>

text \<open>
  The block that \<open>GetConnection\<close> runs twice, before and after taking the write lock: look
  the name up in the pool; a pooled handle that answers the ping is reused, one that does not
  is closed (its pool entry is not removed).
\<close>

definition reuseIfAlive :: "Driver \<Rightarrow> Manager \<Rightarrow> string \<Rightarrow> handle option \<times> Manager" where
  "reuseIfAlive drv m name =
     (case connections m name of
        None \<Rightarrow> (None, m)
      | Some db \<Rightarrow>
          (case dbPing drv (calls m) db of
             None \<Rightarrow> (Some db, issue m [EvPing db])
           | Some err \<Rightarrow> (None, issue m [EvPing db, EvClose db])))"

definition GetConnection ::
    "Driver \<Rightarrow> Manager \<Rightarrow> string \<Rightarrow> (error + handle \<times> ConnectionConfig) \<times> Manager" where
  "GetConnection drv m name =
     (case config m name of
        None \<Rightarrow> (Inl (UnknownConnection, ''unknown connection: '' @ name), m)
      | Some connConfig \<Rightarrow>
          (case reuseIfAlive drv m name of
             (Some db, m1) \<Rightarrow> (Inr (db, connConfig), m1)
           | (None, m1) \<Rightarrow>
               (case reuseIfAlive drv m1 name of
                  (Some db, m2) \<Rightarrow> (Inr (db, connConfig), m2)
                | (None, m2) \<Rightarrow>
                    (case sqlOpen drv (calls m2) (DSN connConfig) of
                       Inl err \<Rightarrow>
                         (Inl (ConnectionFailure,
                               ''failed to open connection '' @ quoted name @ '': '' @ err),
                          issue m2 [EvOpen (DSN connConfig)])
                     | Inr db \<Rightarrow>
                         (let m3 = issue m2 [EvOpen (DSN connConfig),
                                             EvSetMaxOpenConns db 5, EvSetMaxIdleConns db 2]
                          in case dbPing drv (calls m3) db of
                               Some err \<Rightarrow>
                                 (Inl (ConnectionFailure,
                                       ''failed to connect to '' @ quoted name @ '': '' @ err),
                                  issue m3 [EvPing db, EvClose db])
                             | None \<Rightarrow>
                                 (Inr (db, connConfig),
                                  (issue m3 [EvPing db])
                                    \<lparr>connections := (connections m3)(name \<mapsto> db)\<rparr>))))))"

subsection \<open>Results\<close>

record QueryResult =
  Columns :: "string list"
  Rows :: "(string \<rightharpoonup> colval) list"
  Count :: int

record WriteResult =
  RowsAffected :: int
  LastInsertID :: int

record UnsafeResult =
  QueryResult :: "QueryResult option"
  WriteResult :: "WriteResult option"
  Warning :: string
  SkippedCheck :: string

subsection \<open>Collecting rows\<close>

text \<open>
  \<open>rows.Scan\<close> is called with one destination per column; it fails with the driver's error
  for the row, or when the row does not have one value per destination.
\<close>

definition Scan :: "string list \<Rightarrow> (string + colval list) \<Rightarrow> string + colval list" where
  "Scan columns r =
     (case r of
        Inl err \<Rightarrow> Inl err
      | Inr vals \<Rightarrow>
          if length vals \<noteq> length columns
          then Inl (''sql: expected '' @ Itoa (int (length vals)) @
                    '' destination arguments in Scan, not '' @ Itoa (int (length columns)))
          else Inr vals)"

text \<open>The inner loop over the columns: raw bytes become text, a later column of the same
  name overwrites an earlier one.\<close>

fun makeRow :: "string list \<Rightarrow> colval list \<Rightarrow> (string \<rightharpoonup> colval) \<Rightarrow> (string \<rightharpoonup> colval)" where
  "makeRow (col # cols) (val # vals) row =
     makeRow cols vals (row(col \<mapsto> (case val of VBytes b \<Rightarrow> VString b | _ \<Rightarrow> val)))"
| "makeRow _ _ row = row"

text \<open>
  The loop \<open>for rows.Next()\<close>, shared by \<open>ExecuteQuery\<close> and \<open>ExecuteUnsafe\<close>: it ends when
  the cursor is exhausted or when \<open>rowCount >= MaxRows\<close>, and it returns at once with the
  error of a failed scan.
\<close>

fun collectRows ::
    "int \<Rightarrow> string list \<Rightarrow> (string + colval list) list \<Rightarrow> int \<Rightarrow> (string \<rightharpoonup> colval) list \<Rightarrow>
     string + ((string \<rightharpoonup> colval) list \<times> int)" where
  "collectRows maxRows columns [] rowCount acc = Inr (acc, rowCount)"
| "collectRows maxRows columns (r # rs) rowCount acc =
     (if rowCount \<ge> maxRows then Inr (acc, rowCount)
      else
        (case Scan columns r of
           Inl err \<Rightarrow> Inl err
         | Inr vals \<Rightarrow>
             collectRows maxRows columns rs (rowCount + 1)
               (acc @ [makeRow columns vals Map.empty])))"

definition runQuery ::
    "Driver \<Rightarrow> Manager \<Rightarrow> handle \<Rightarrow> ConnectionConfig \<Rightarrow> string \<Rightarrow> (error + QueryResult) \<times> Manager" where
  "runQuery drv m db connConfig query =
     (let m' = issue m [EvQuery db query] in
      case dbQuery drv (calls m) db query of
        Inl err \<Rightarrow> (Inl (ExecutionFailure, ''query execution failed: '' @ err), m')
      | Inr rows \<Rightarrow>
          (case columnsResult rows of
             Inl err \<Rightarrow> (Inl (ResultDecodeFailure, ''failed to get columns: '' @ err), m')
           | Inr columns \<Rightarrow>
               (case collectRows (MaxRows connConfig) columns (pending rows) 0 [] of
                  Inl err \<Rightarrow> (Inl (ResultDecodeFailure, ''failed to scan row: '' @ err), m')
                | Inr (collected, rowCount) \<Rightarrow>
                    (Inr \<lparr>Columns = columns, Rows = collected, Count = rowCount\<rparr>, m'))))"

subsection \<open>The four execution modes\<close>

definition ExecuteQuery ::
    "Driver \<Rightarrow> Manager \<Rightarrow> string \<Rightarrow> string \<Rightarrow> (error + QueryResult) \<times> Manager" where
  "ExecuteQuery drv m connectionName query =
     (case GetConnection drv m connectionName of
        (Inl err, m1) \<Rightarrow> (Inl err, m1)
      | (Inr (db, connConfig), m1) \<Rightarrow>
          if ReadOnly connConfig \<and> \<not> isReadOnlyQuery query then
            (Inl (ReadOnlyViolation,
                  ''connection '' @ quoted connectionName @
                  '' is read-only, write operations are not allowed''), m1)
          else if \<not> ReadOnly connConfig \<and> isDangerousQuery query then
            (Inl (DangerousOperationBlocked,
                  ''dangerous operations (DROP, ALTER, TRUNCATE, CREATE, GRANT, REVOKE) are not allowed''),
             m1)
          else if isSensitiveQuery query then
            (Inl (SensitiveAccessBlocked, ''access to sensitive MySQL metadata is not allowed''), m1)
          else runQuery drv m1 db connConfig query)"

definition runExec ::
    "Driver \<Rightarrow> Manager \<Rightarrow> handle \<Rightarrow> string \<Rightarrow> (error + int \<times> int) \<times> Manager" where
  "runExec drv m db query =
     (let m' = issue m [EvExec db query] in
      case dbExec drv (calls m) db query of
        Inl err \<Rightarrow> (Inl (ExecutionFailure, ''query execution failed: '' @ err), m')
      | Inr (rowsAffected, lastInsertID) \<Rightarrow> (Inr (rowsAffected, lastInsertID), m'))"

definition ExecuteWrite ::
    "Driver \<Rightarrow> Manager \<Rightarrow> string \<Rightarrow> string \<Rightarrow> QueryType list \<Rightarrow> (error + WriteResult) \<times> Manager" where
  "ExecuteWrite drv m connectionName query allowedTypes =
     (case GetConnection drv m connectionName of
        (Inl err, m1) \<Rightarrow> (Inl err, m1)
      | (Inr (db, connConfig), m1) \<Rightarrow>
          (case (if length allowedTypes > 0 then ValidateQueryType query allowedTypes else None) of
             Some err \<Rightarrow> (Inl err, m1)
           | None \<Rightarrow>
               if ReadOnly connConfig then
                 (Inl (ReadOnlyViolation,
                       ''connection '' @ quoted connectionName @
                       '' is read-only, write operations are not allowed''), m1)
               else if IsDangerousQueryType (DetectQueryType query) then
                 (Inl (DangerousOperationBlocked,
                       ''dangerous operations (DROP, TRUNCATE, CREATE, GRANT, REVOKE) are not allowed. Use mysql_execute_unsafe if you need to bypass this check''),
                  m1)
               else if isSensitiveQuery query then
                 (Inl (SensitiveAccessBlocked, ''access to sensitive MySQL metadata is not allowed''),
                  m1)
               else
                 (case runExec drv m1 db query of
                    (Inl err, m2) \<Rightarrow> (Inl err, m2)
                  | (Inr (rowsAffected, lastInsertID), m2) \<Rightarrow>
                      (Inr \<lparr>RowsAffected = rowsAffected, LastInsertID = lastInsertID\<rparr>, m2))))"

definition blockedPatterns :: "string list" where
  "blockedPatterns =
     [''DROP DATABASE'', ''DROP SCHEMA'', ''TRUNCATE'', ''CREATE DATABASE'', ''GRANT'', ''REVOKE'']"

text \<open>The loop over the blocked patterns of \<open>ExecuteAlter\<close>: the first one contained.\<close>

fun firstContained :: "string \<Rightarrow> string list \<Rightarrow> string option" where
  "firstContained q [] = None"
| "firstContained q (pattern # patterns) =
     (if Contains q pattern then Some pattern else firstContained q patterns)"

definition ExecuteAlter ::
    "Driver \<Rightarrow> Manager \<Rightarrow> string \<Rightarrow> string \<Rightarrow> (error + WriteResult) \<times> Manager" where
  "ExecuteAlter drv m connectionName query =
     (case GetConnection drv m connectionName of
        (Inl err, m1) \<Rightarrow> (Inl err, m1)
      | (Inr (db, connConfig), m1) \<Rightarrow>
          (case ValidateQueryType query [QueryTypeAlter] of
             Some err \<Rightarrow> (Inl err, m1)
           | None \<Rightarrow>
               if ReadOnly connConfig then
                 (Inl (ReadOnlyViolation,
                       ''connection '' @ quoted connectionName @
                       '' is read-only, ALTER operations are not allowed''), m1)
               else
                 (case firstContained (ToUpper (TrimSpace query)) blockedPatterns of
                    Some pattern \<Rightarrow>
                      (Inl (DangerousOperationBlocked,
                            ''operation '' @ quoted pattern @
                            '' is not allowed even with mysql_alter. Use mysql_execute_unsafe if absolutely necessary''),
                       m1)
                  | None \<Rightarrow>
                      if isSensitiveQuery query then
                        (Inl (SensitiveAccessBlocked,
                              ''access to sensitive MySQL metadata is not allowed''), m1)
                      else
                        (case runExec drv m1 db query of
                           (Inl err, m2) \<Rightarrow> (Inl err, m2)
                         | (Inr (rowsAffected, lastInsertID), m2) \<Rightarrow>
                             (Inr \<lparr>RowsAffected = rowsAffected, LastInsertID = 0\<rparr>, m2)))))"

definition skippedChecksOf :: "string \<Rightarrow> string list" where
  "skippedChecksOf query =
     (let skippedChecks = [];
          skippedChecks = (if isDangerousQuery query
                           then skippedChecks @ [''dangerous query blocking'']
                           else skippedChecks);
          skippedChecks = (if isSensitiveQuery query
                           then skippedChecks @ [''sensitive query blocking'']
                           else skippedChecks)
      in skippedChecks)"

definition skippedCheckMsgOf :: "string \<Rightarrow> string" where
  "skippedCheckMsgOf query =
     (let skippedChecks = skippedChecksOf query in
      if length skippedChecks > 0 then Join skippedChecks '', '' else ''none'')"

definition ExecuteUnsafe ::
    "Driver \<Rightarrow> Manager \<Rightarrow> string \<Rightarrow> string \<Rightarrow> (error + UnsafeResult) \<times> Manager" where
  "ExecuteUnsafe drv m connectionName query =
     (case GetConnection drv m connectionName of
        (Inl err, m1) \<Rightarrow> (Inl err, m1)
      | (Inr (db, connConfig), m1) \<Rightarrow>
          (let queryType = DetectQueryType query in
           if ReadOnly connConfig \<and> \<not> IsReadOnlyQueryType queryType then
             (Inl (ReadOnlyViolation,
                   ''connection '' @ quoted connectionName @
                   '' is read-only, write operations are not allowed (even with unsafe mode)''),
              m1)
           else
             let skippedCheckMsg = skippedCheckMsgOf query;
                 result = \<lparr>QueryResult = None, WriteResult = None,
                           Warning = ''UNSAFE EXECUTION: This query bypassed safety checks. Ensure you understand the implications.'',
                           SkippedCheck = skippedCheckMsg\<rparr>
             in
             if IsReadOnlyQueryType queryType then
               (case runQuery drv m1 db connConfig query of
                  (Inl err, m2) \<Rightarrow> (Inl err, m2)
                | (Inr queryResult, m2) \<Rightarrow> (Inr (result\<lparr>QueryResult := Some queryResult\<rparr>), m2))
             else
               (case runExec drv m1 db query of
                  (Inl err, m2) \<Rightarrow> (Inl err, m2)
                | (Inr (rowsAffected, lastInsertID), m2) \<Rightarrow>
                    (Inr (result\<lparr>WriteResult :=
                            Some \<lparr>RowsAffected = rowsAffected, LastInsertID = lastInsertID\<rparr>\<rparr>),
                     m2))))"

text \<open>The class of the error of an outcome, if it is an error.\<close>

definition errorKind :: "(error + 'a) \<Rightarrow> ErrorKind option" where
  "errorKind res = (case res of Inl (kind, msg) \<Rightarrow> Some kind | Inr _ \<Rightarrow> None)"

section \<open>A sample installation\<close>

text \<open>
  Concrete values on which the theorems below are instantiated: an environment, a connection
  as the configuration file gives it, a registry with a read-write and a read-only connection
  capped at two rows, a driver that answers every call (its result set has ten rows), a driver
  whose pings all fail, and a manager whose pool holds a handle from an earlier call.
\<close>

definition sampleEnv :: "string \<rightharpoonup> string" where
  "sampleEnv = [''DB_USER'' \<mapsto> ''app'']"

definition rawConn :: ConnectionConfig where
  "rawConn = \<lparr>Host = ''localhost'', Port = 0, User = ''${DB_USER}'', Password = ''${DB_PASS}x'',
              Database = ''shop'', ReadOnly = False, MaxRows = 0\<rparr>"

definition rawConnNoHost :: ConnectionConfig where
  "rawConnNoHost = rawConn\<lparr>Host := ''${DB_HOST}''\<rparr>"

definition loadedConn :: ConnectionConfig where
  "loadedConn = \<lparr>Host = ''localhost'', Port = 3306, User = ''app'', Password = ''${DB_PASS}x'',
              Database = ''shop'', ReadOnly = False, MaxRows = 1000\<rparr>"

definition sampleConn :: ConnectionConfig where
  "sampleConn = \<lparr>Host = ''localhost'', Port = 3306, User = ''app'', Password = ''secret'',
                 Database = ''shop'', ReadOnly = False, MaxRows = 2\<rparr>"

definition sampleReadOnlyConn :: ConnectionConfig where
  "sampleReadOnlyConn = sampleConn\<lparr>ReadOnly := True\<rparr>"

definition sampleRegistry :: "string \<rightharpoonup> ConnectionConfig" where
  "sampleRegistry = map_of [(''main'', sampleConn), (''replica'', sampleReadOnlyConn)]"

definition sampleRows :: sqlRows where
  "sampleRows = \<lparr>columnsResult = Inr [''id'', ''name''],
                 pending = map (\<lambda>i. Inr [VInt (int i), VBytes ''row'']) [1 ..< 11]\<rparr>"

definition healthyDriver :: Driver where
  "healthyDriver = \<lparr>sqlOpen = (\<lambda>past dsn. Inr (length past)),
                    dbPing = (\<lambda>past db. None),
                    dbQuery = (\<lambda>past db query. Inr sampleRows),
                    dbExec = (\<lambda>past db query. Inr (1, 0))\<rparr>"

definition unreachableDriver :: Driver where
  "unreachableDriver = healthyDriver\<lparr>dbPing := (\<lambda>past db. Some ''connection refused'')\<rparr>"

definition staleManager :: Manager where
  "staleManager = \<lparr>config = sampleRegistry, connections = [''main'' \<mapsto> 7], calls = []\<rparr>"

section \<open>Facts about the string functions\<close>

lemma HasPrefix_iff_append: "HasPrefix s p \<longleftrightarrow> (\<exists>r. s = p @ r)"
proof
  assume "HasPrefix s p"
  then have "s = p @ drop (length p) s"
    by (metis HasPrefix_def append_take_drop_id)
  then show "\<exists>r. s = p @ r" ..
next
  assume "\<exists>r. s = p @ r"
  then show "HasPrefix s p" by (auto simp: HasPrefix_def)
qed

lemma HasPrefix_iff_prefix: "HasPrefix s p \<longleftrightarrow> prefix p s"
  by (simp add: HasPrefix_iff_append prefix_def)

lemma Contains_iff_sublist: "Contains s sub \<longleftrightarrow> sublist sub s"
proof (induction s)
  case Nil
  show ?case by simp
next
  case (Cons c s)
  show ?case
    by (simp add: Cons.IH HasPrefix_iff_prefix sublist_Cons_right)
qed

lemma isSpace_toUpperByte [simp]: "isSpace (toUpperByte c) = isSpace c"
  by (auto simp add: isSpace_def toUpperByte_def split: if_splits)

lemma ToUpper_append [simp]: "ToUpper (a @ b) = ToUpper a @ ToUpper b"
  by (simp add: ToUpper_def)

lemma ToUpper_dropWhile: "ToUpper (dropWhile isSpace s) = dropWhile isSpace (ToUpper s)"
  by (induction s) (simp_all add: ToUpper_def)

lemma ToUpper_rev: "ToUpper (rev s) = rev (ToUpper s)"
  by (simp add: ToUpper_def rev_map)

text \<open>
  \<open>DetectQueryType\<close> upper-cases and then trims, \<open>ExecuteAlter\<close> trims and then
  upper-cases; on the modelled text the order makes no difference.
\<close>

lemma ToUpper_TrimSpace: "ToUpper (TrimSpace s) = TrimSpace (ToUpper s)"
  by (simp add: TrimSpace_def ToUpper_rev ToUpper_dropWhile)

lemma anyPrefix_iff: "anyPrefix q ps \<longleftrightarrow> (\<exists>p \<in> set ps. HasPrefix q p)"
  by (induction ps) auto

lemma allowedLoop_iff: "allowedLoop d qts \<longleftrightarrow> d \<in> set qts"
  by (induction qts) auto

lemma firstPrefix_desc_space: "firstPrefix (''DESC '' @ r) prefixMap = QueryTypeDescribe"
  by (simp add: prefixMap_def HasPrefix_def)

lemma firstPrefix_keyword:
  "firstPrefix (''SELECT'' @ r) prefixMap = QueryTypeSelect"
  "firstPrefix (''INSERT'' @ r) prefixMap = QueryTypeInsert"
  "firstPrefix (''UPDATE'' @ r) prefixMap = QueryTypeUpdate"
  "firstPrefix (''DELETE'' @ r) prefixMap = QueryTypeDelete"
  "firstPrefix (''ALTER'' @ r) prefixMap = QueryTypeAlter"
  "firstPrefix (''SHOW'' @ r) prefixMap = QueryTypeShow"
  "firstPrefix (''DESCRIBE'' @ r) prefixMap = QueryTypeDescribe"
  "firstPrefix (''EXPLAIN'' @ r) prefixMap = QueryTypeExplain"
  "firstPrefix (''DROP'' @ r) prefixMap = QueryTypeDrop"
  "firstPrefix (''TRUNCATE'' @ r) prefixMap = QueryTypeTruncate"
  "firstPrefix (''CREATE'' @ r) prefixMap = QueryTypeCreate"
  "firstPrefix (''GRANT'' @ r) prefixMap = QueryTypeGrant"
  "firstPrefix (''REVOKE'' @ r) prefixMap = QueryTypeRevoke"
  "firstPrefix (''SET'' @ r) prefixMap = QueryTypeSet"
  "firstPrefix (''USE'' @ r) prefixMap = QueryTypeUse"
  by (simp_all add: prefixMap_def HasPrefix_def)

lemma list_all_isSpace_ToUpper: "list_all isSpace (ToUpper ws) = list_all isSpace ws"
  by (simp add: ToUpper_def list_all_iff)

text \<open>
  Trimming white space around \<open>ws @ K @ R\<close> keeps a keyword \<open>K\<close> that follows leading
  white space \<open>ws\<close> at the front of the result, whatever follows it.
\<close>

lemma trim_keeps_keyword:
  assumes "K \<noteq> []" "\<not> isSpace (hd K)" "\<not> isSpace (last K)" "list_all isSpace ws"
  shows "\<exists>r. TrimSpace (ws @ K @ R) = K @ r"
proof -
  have front: "dropWhile isSpace (ws @ K @ R) = K @ R"
    using assms by (cases K) (auto simp: list_all_iff dropWhile_append)
  have "\<exists>r. dropWhile isSpace (rev R @ rev K) = r @ rev K"
  proof (cases "list_all isSpace (rev R)")
    case True
    have "dropWhile isSpace (rev K) = rev K"
      using assms by (cases "rev K") (auto simp: hd_rev)
    with True have "dropWhile isSpace (rev R @ rev K) = [] @ rev K"
      by (simp add: dropWhile_append list_all_iff)
    then show ?thesis by blast
  next
    case False
    then have "dropWhile isSpace (rev R @ rev K) = dropWhile isSpace (rev R) @ rev K"
      by (auto simp: dropWhile_append list_all_iff)
    then show ?thesis by blast
  qed
  then obtain r where "dropWhile isSpace (rev R @ rev K) = r @ rev K" by blast
  then have "TrimSpace (ws @ K @ R) = K @ rev r"
    by (simp add: TrimSpace_def front)
  then show ?thesis by blast
qed

text \<open>Each keyword of the closed set, with the type its entry of the prefix table gives.\<close>

lemma keyword_cases:
  assumes "K \<in> {''SELECT'', ''INSERT'', ''UPDATE'', ''DELETE'', ''ALTER'', ''SHOW'', ''DESCRIBE'',
                  ''EXPLAIN'', ''DROP'', ''TRUNCATE'', ''CREATE'', ''GRANT'', ''REVOKE'', ''SET'', ''USE''}"
  shows "K \<noteq> [] \<and> \<not> isSpace (hd K) \<and> \<not> isSpace (last K) \<and>
         (IsReadOnlyQueryType (firstPrefix (K @ r) prefixMap) \<longleftrightarrow>
          K \<in> {''SELECT'', ''SHOW'', ''DESCRIBE'', ''EXPLAIN''})"
  using assms
  apply (elim insertE emptyE)
  apply (simp_all only: firstPrefix_keyword)
  apply (simp_all add: isSpace_def)
  done

section \<open>Claims about the classifier\<close>

text \<open>
  C6. Every statement that, once upper-cased and trimmed, begins with \<open>DESC\<close> followed by a
  space is classified as DESCRIBE, and so never as DELETE; every statement that then begins
  with \<open>DESCRIBE\<close> is classified as DESCRIBE. (By \<open>ToUpper_TrimSpace\<close> trimming first and
  upper-casing second gives the same text.)
\<close>

theorem detect_desc_is_describe:
  "(HasPrefix (TrimSpace (ToUpper s)) ''DESC '' \<longrightarrow>
      DetectQueryType s = QueryTypeDescribe \<and> DetectQueryType s \<noteq> QueryTypeDelete) \<and>
   (HasPrefix (TrimSpace (ToUpper s)) ''DESCRIBE'' \<longrightarrow> DetectQueryType s = QueryTypeDescribe)"
  by (auto simp: HasPrefix_iff_append DetectQueryType_def firstPrefix_desc_space
      firstPrefix_keyword simp del: append_Cons)

theorem detect_desc_is_describe_witness:
  "HasPrefix (TrimSpace (ToUpper ''  desc users'')) ''DESC '' \<and>
   DetectQueryType ''  desc users'' = QueryTypeDescribe \<and>
   DetectQueryType ''  desc users'' \<noteq> QueryTypeDelete \<and>
   HasPrefix (TrimSpace (ToUpper ''Describe users '')) ''DESCRIBE'' \<and>
   DetectQueryType ''Describe users '' = QueryTypeDescribe"
proof -
  have a: "HasPrefix (TrimSpace (ToUpper ''  desc users'')) ''DESC ''" by code_simp
  have b: "HasPrefix (TrimSpace (ToUpper ''Describe users '')) ''DESCRIBE''" by code_simp
  show ?thesis
    using a b detect_desc_is_describe [of "''  desc users''"]
      detect_desc_is_describe [of "''Describe users ''"]
    by simp
qed

text \<open>
  C7. Let a statement consist of any white space \<open>ws\<close>, then a word \<open>k\<close> that upper-cases to
  a keyword \<open>K\<close> of the closed set, then any text. Its detected type is read-only exactly when
  \<open>K\<close> is one of SELECT, SHOW, DESCRIBE, EXPLAIN.
\<close>

theorem readonly_iff_leading_keyword:
  assumes ws: "list_all isSpace ws"
    and up: "ToUpper k = K"
    and kw: "K \<in> {''SELECT'', ''INSERT'', ''UPDATE'', ''DELETE'', ''ALTER'', ''SHOW'', ''DESCRIBE'',
                  ''EXPLAIN'', ''DROP'', ''TRUNCATE'', ''CREATE'', ''GRANT'', ''REVOKE'', ''SET'', ''USE''}"
  shows "IsReadOnlyQueryType (DetectQueryType (ws @ k @ rest)) \<longleftrightarrow>
         K \<in> {''SELECT'', ''SHOW'', ''DESCRIBE'', ''EXPLAIN''}"
proof -
  have ends: "K \<noteq> []" "\<not> isSpace (hd K)" "\<not> isSpace (last K)"
    using keyword_cases [OF kw] by blast+
  have "list_all isSpace (ToUpper ws)"
    using ws by (simp add: list_all_isSpace_ToUpper)
  with ends obtain r where "TrimSpace (ToUpper ws @ K @ ToUpper rest) = K @ r"
    using trim_keeps_keyword by blast
  then have d: "DetectQueryType (ws @ k @ rest) = firstPrefix (K @ r) prefixMap"
    by (simp add: DetectQueryType_def up)
  show ?thesis
    unfolding d using keyword_cases [OF kw] by blast
qed

theorem readonly_iff_leading_keyword_witness:
  "list_all isSpace [CHR 0x09, CHR '' ''] \<and> ToUpper ''sHoW'' = ''SHOW'' \<and>
   IsReadOnlyQueryType (DetectQueryType ([CHR 0x09, CHR '' ''] @ ''sHoW'' @ '' TABLES'')) \<and>
   list_all isSpace '' '' \<and> ToUpper ''update'' = ''UPDATE'' \<and>
   \<not> IsReadOnlyQueryType (DetectQueryType ('' '' @ ''update'' @ '' t SET x=1''))"
proof -
  have a: "list_all isSpace [CHR 0x09, CHR '' '']" by code_simp
  have b: "ToUpper ''sHoW'' = ''SHOW''" by code_simp
  have c: "list_all isSpace '' ''" by code_simp
  have d: "ToUpper ''update'' = ''UPDATE''" by code_simp
  show ?thesis
    using a b c d
      readonly_iff_leading_keyword [OF a b, of "'' TABLES''"]
      readonly_iff_leading_keyword [OF c d, of "'' t SET x=1''"]
    by simp
qed

text \<open>
  C8. The text predicate \<open>isDangerousQuery\<close> holds exactly when the upper-cased, trimmed
  statement begins with DROP, ALTER, TRUNCATE, CREATE, GRANT or REVOKE. The type predicate
  \<open>IsDangerousQueryType\<close> holds exactly for the types DROP, TRUNCATE, CREATE, GRANT and
  REVOKE, and not for ALTER. So a statement beginning with ALTER is dangerous by its text and
  not dangerous by its type.
\<close>

theorem dangerous_text_and_type:
  "(isDangerousQuery sql \<longleftrightarrow>
      HasPrefix (TrimSpace (ToUpper sql)) ''DROP'' \<or> HasPrefix (TrimSpace (ToUpper sql)) ''ALTER'' \<or>
      HasPrefix (TrimSpace (ToUpper sql)) ''TRUNCATE'' \<or> HasPrefix (TrimSpace (ToUpper sql)) ''CREATE'' \<or>
      HasPrefix (TrimSpace (ToUpper sql)) ''GRANT'' \<or> HasPrefix (TrimSpace (ToUpper sql)) ''REVOKE'') \<and>
   (IsDangerousQueryType t \<longleftrightarrow>
      t \<in> {QueryTypeDrop, QueryTypeTruncate, QueryTypeCreate, QueryTypeGrant, QueryTypeRevoke}) \<and>
   \<not> IsDangerousQueryType QueryTypeAlter \<and>
   (HasPrefix (TrimSpace (ToUpper sql)) ''ALTER'' \<longrightarrow>
      isDangerousQuery sql \<and> DetectQueryType sql = QueryTypeAlter \<and>
      \<not> IsDangerousQueryType (DetectQueryType sql))"
proof -
  have by_text: "isDangerousQuery sql \<longleftrightarrow>
      HasPrefix (TrimSpace (ToUpper sql)) ''DROP'' \<or> HasPrefix (TrimSpace (ToUpper sql)) ''ALTER'' \<or>
      HasPrefix (TrimSpace (ToUpper sql)) ''TRUNCATE'' \<or> HasPrefix (TrimSpace (ToUpper sql)) ''CREATE'' \<or>
      HasPrefix (TrimSpace (ToUpper sql)) ''GRANT'' \<or> HasPrefix (TrimSpace (ToUpper sql)) ''REVOKE''"
    by (simp add: isDangerousQuery_def)
  have by_type: "IsDangerousQueryType t \<longleftrightarrow>
      t \<in> {QueryTypeDrop, QueryTypeTruncate, QueryTypeCreate, QueryTypeGrant, QueryTypeRevoke}"
    by (cases t) simp_all
  have alter: "DetectQueryType sql = QueryTypeAlter"
    if "HasPrefix (TrimSpace (ToUpper sql)) ''ALTER''"
    using that
    by (auto simp: HasPrefix_iff_append DetectQueryType_def firstPrefix_keyword
        simp del: append_Cons)
  show ?thesis using by_text by_type alter by simp
qed

theorem dangerous_text_and_type_witness:
  "HasPrefix (TrimSpace (ToUpper ''alter table t add c int'')) ''ALTER'' \<and>
   isDangerousQuery ''alter table t add c int'' \<and>
   \<not> IsDangerousQueryType (DetectQueryType ''alter table t add c int'')"
proof -
  have a: "HasPrefix (TrimSpace (ToUpper ''alter table t add c int'')) ''ALTER''" by code_simp
  show ?thesis
    using a dangerous_text_and_type [of "''alter table t add c int''"] by simp
qed

text \<open>
  C9. \<open>ValidateQueryType\<close> returns no error exactly when the detected type is in the allowed
  list (for every list, the empty one included). Otherwise the error is a type mismatch whose
  message carries the labels of the allowed types, joined by a slash, and the label of the
  detected type. \<open>SELECT 1\<close> passes for SELECT; \<open>INSERT INTO t VALUES (1)\<close> fails with
  expected SELECT, got INSERT.
\<close>

theorem validate_query_type:
  "ValidateQueryType sql allowed =
     (if DetectQueryType sql \<in> set allowed then None
      else Some (QueryTypeMismatch,
             ''query type mismatch: expected '' @ Join (map GetQueryTypeLabel allowed) ''/'' @
             '', got '' @ GetQueryTypeLabel (DetectQueryType sql) @
             ''. Use the appropriate tool for this query type'')) \<and>
   ValidateQueryType ''SELECT 1'' [QueryTypeSelect] = None \<and>
   ValidateQueryType ''INSERT INTO t VALUES (1)'' [QueryTypeSelect] =
     Some (QueryTypeMismatch,
       ''query type mismatch: expected SELECT, got INSERT. Use the appropriate tool for this query type'')"
proof -
  have general: "ValidateQueryType sql allowed =
     (if DetectQueryType sql \<in> set allowed then None
      else Some (QueryTypeMismatch,
             ''query type mismatch: expected '' @ Join (map GetQueryTypeLabel allowed) ''/'' @
             '', got '' @ GetQueryTypeLabel (DetectQueryType sql) @
             ''. Use the appropriate tool for this query type''))"
    by (simp add: ValidateQueryType_def Let_def allowedLoop_iff)
  have ex_select: "ValidateQueryType ''SELECT 1'' [QueryTypeSelect] = None"
    by code_simp
  have ex_insert: "ValidateQueryType ''INSERT INTO t VALUES (1)'' [QueryTypeSelect] =
     Some (QueryTypeMismatch,
       ''query type mismatch: expected SELECT, got INSERT. Use the appropriate tool for this query type'')"
    by code_simp
  show ?thesis using general ex_select ex_insert by blast
qed

theorem validate_query_type_witness:
  "ValidateQueryType ''delete from t'' [QueryTypeInsert, QueryTypeUpdate] =
     Some (QueryTypeMismatch,
       ''query type mismatch: expected INSERT/UPDATE, got DELETE. Use the appropriate tool for this query type'')"
proof -
  have d: "DetectQueryType ''delete from t'' = QueryTypeDelete" by code_simp
  show ?thesis
    using validate_query_type [of "''delete from t''" "[QueryTypeInsert, QueryTypeUpdate]"]
    by (simp add: d)
qed

section \<open>Facts about configuration loading\<close>

lemma envVarName_token:
  assumes "n \<noteq> []" "CHR ''}'' \<notin> set n"
  shows "envVarName (''${'' @ n @ ''}'') = Some n"
  using assms by (simp add: envVarName_def HasPrefix_def butlast_append)

lemma envVarName_Some:
  assumes "envVarName v = Some n"
  shows "v = ''${'' @ n @ ''}'' \<and> n \<noteq> [] \<and> CHR ''}'' \<notin> set n"
proof -
  from assms have p: "HasPrefix v ''${''" and l: "2 < length v" and e: "last v = CHR ''}''"
    and n: "n = butlast (drop 2 v)" and ne: "n \<noteq> []" and nb: "CHR ''}'' \<notin> set n"
    by (auto simp: envVarName_def Let_def split: if_splits)
  from p obtain r where v: "v = ''${'' @ r" by (auto simp: HasPrefix_iff_append)
  with l have r: "r \<noteq> []" by auto
  with e v have "last r = CHR ''}''" by simp
  with r have "r = butlast r @ ''}''" by (metis append_butlast_last_id)
  moreover from n v have "n = butlast r" by simp
  ultimately show ?thesis using v ne nb by simp
qed

lemma expandEnvVar_cases:
  "expandEnvVar env v =
     (if \<exists>n. v = ''${'' @ n @ ''}'' \<and> n \<noteq> [] \<and> CHR ''}'' \<notin> set n
      then Getenv env (butlast (drop 2 v)) else v)"
proof (cases "envVarName v")
  case None
  then have ne: "\<not> (\<exists>n. v = ''${'' @ n @ ''}'' \<and> n \<noteq> [] \<and> CHR ''}'' \<notin> set n)"
    using envVarName_token by fastforce
  show ?thesis
    by (subst if_not_P [OF ne]) (simp add: expandEnvVar_def None)
next
  case (Some n)
  from envVarName_Some [OF Some] have v: "v = ''${'' @ n @ ''}''" "n \<noteq> []" "CHR ''}'' \<notin> set n"
    by auto
  then have "butlast (drop 2 v) = n" by (simp add: butlast_append)
  moreover have ex: "\<exists>n. v = ''${'' @ n @ ''}'' \<and> n \<noteq> [] \<and> CHR ''}'' \<notin> set n"
    using v by blast
  ultimately show ?thesis
    by (subst if_P [OF ex]) (simp add: expandEnvVar_def Some)
qed

lemma validate_fields:
  assumes "validateAndApplyDefaults env name conn = (res, conn')"
  shows "Host conn' = expandEnvVar env (Host conn)"
    and "User conn' = expandEnvVar env (User conn)"
    and "Password conn' = expandEnvVar env (Password conn)"
    and "Database conn' = expandEnvVar env (Database conn)"
    and "ReadOnly conn' = ReadOnly conn"
  using assms by (auto simp: validateAndApplyDefaults_def Let_def split: if_splits)

lemma validate_error:
  assumes "validateAndApplyDefaults env name conn = (res, conn')"
  shows "res =
     (if expandEnvVar env (Host conn) = [] then
        Some (ConfigurationError, ''connection '' @ quoted name @ '': host is required'')
      else if expandEnvVar env (User conn) = [] then
        Some (ConfigurationError, ''connection '' @ quoted name @ '': user is required'')
      else if expandEnvVar env (Database conn) = [] then
        Some (ConfigurationError, ''connection '' @ quoted name @ '': database is required'')
      else None)"
  using assms by (auto simp: validateAndApplyDefaults_def Let_def split: if_splits)

lemma validate_defaults:
  assumes "validateAndApplyDefaults env name conn = (None, conn')"
  shows "Port conn' = (if Port conn = 0 then 3306 else Port conn)"
    and "MaxRows conn' = (if MaxRows conn = 0 then 1000 else MaxRows conn)"
  using assms by (auto simp: validateAndApplyDefaults_def Let_def split: if_splits)

lemma validateLoop_rejects:
  assumes "(name, conn) \<in> set conns" "fst (validateAndApplyDefaults env name conn) \<noteq> None"
  shows "\<exists>err. validateLoop env conns = Inl err"
  using assms
proof (induction conns)
  case Nil
  then show ?case by simp
next
  case (Cons a conns)
  obtain n c where a: "a = (n, c)" by (cases a)
  show ?case
  proof (cases "validateAndApplyDefaults env n c")
    case (Pair r c')
    show ?thesis
    proof (cases r)
      case None
      with Pair Cons.prems a have "(name, conn) \<in> set conns" by auto
      from Cons.IH [OF this Cons.prems(2)] show ?thesis
        by (auto simp: a Pair None)
    next
      case (Some e)
      then show ?thesis by (simp add: a Pair)
    qed
  qed
qed

lemma validateLoop_accepts:
  assumes "validateLoop env conns = Inr done" "(name, c) \<in> set done"
  shows "\<exists>conn. (name, conn) \<in> set conns \<and> validateAndApplyDefaults env name conn = (None, c)"
  using assms
proof (induction conns arbitrary: "done")
  case Nil
  then show ?case by simp
next
  case (Cons a conns)
  obtain n c0 where a: "a = (n, c0)" by (cases a)
  from Cons.prems(1) obtain c' rest where
    v: "validateAndApplyDefaults env n c0 = (None, c')" and
    r: "validateLoop env conns = Inr rest" and d: "done = (n, c') # rest"
    by (auto simp: a split: prod.splits option.splits sum.splits)
  show ?case
  proof (cases "(name, c) = (n, c')")
    case True
    with v show ?thesis by (auto simp: a)
  next
    case False
    with Cons.prems(2) d have "(name, c) \<in> set rest" by auto
    from Cons.IH [OF r this] show ?thesis by auto
  qed
qed

lemma LoadConfig_rejects:
  assumes "(name, conn) \<in> set conns" "fst (validateAndApplyDefaults env name conn) \<noteq> None"
  shows "\<exists>err. LoadConfig env (Inr (Inr conns)) = Inl err"
  using validateLoop_rejects [OF assms] by (auto simp: LoadConfig_def)

lemma LoadConfig_accepts:
  assumes "LoadConfig env (Inr (Inr conns)) = Inr done" "(name, c) \<in> set done"
  shows "Host c \<noteq> [] \<and> User c \<noteq> [] \<and> Database c \<noteq> [] \<and> Port c \<noteq> 0 \<and> MaxRows c \<noteq> 0"
proof -
  from assms(1) have "validateLoop env conns = Inr done"
    by (auto simp: LoadConfig_def split: sum.splits if_splits)
  from validateLoop_accepts [OF this assms(2)] obtain conn where
    v: "validateAndApplyDefaults env name conn = (None, c)" by blast
  from validate_error [OF v] have
    "expandEnvVar env (Host conn) \<noteq> []" "expandEnvVar env (User conn) \<noteq> []"
    "expandEnvVar env (Database conn) \<noteq> []"
    by (auto split: if_splits)
  with validate_fields [OF v] validate_defaults [OF v] show ?thesis
    by (auto split: if_splits)
qed

text \<open>
  C10. \<open>validateAndApplyDefaults\<close> rejects a connection whose host, user or database is
  empty after expansion, with an error that carries the connection's name in quotes; otherwise
  it returns no error, every text field is the expansion of the configured one, and port and
  row cap are 3306 and 1000 exactly when the configured value was 0 (absent or written as 0)
  and the configured value otherwise. \<open>LoadConfig\<close> fails as soon as one connection is
  rejected, and every connection of a loaded configuration has non-empty host, user and
  database and non-zero port and row cap. Expansion replaces a value exactly when the whole
  value is a dollar sign, an opening brace, one or more characters other than a closing brace,
  and a closing brace; the result is the value of the variable named between the braces, the
  empty string when it is not set. Every other value is kept as it is.
\<close>

theorem config_loading:
  "(validateAndApplyDefaults env name conn = (res, conn') \<longrightarrow>
      res =
        (if expandEnvVar env (Host conn) = [] then
           Some (ConfigurationError, ''connection '' @ quoted name @ '': host is required'')
         else if expandEnvVar env (User conn) = [] then
           Some (ConfigurationError, ''connection '' @ quoted name @ '': user is required'')
         else if expandEnvVar env (Database conn) = [] then
           Some (ConfigurationError, ''connection '' @ quoted name @ '': database is required'')
         else None) \<and>
      (res = None \<longrightarrow>
         Host conn' = expandEnvVar env (Host conn) \<and>
         User conn' = expandEnvVar env (User conn) \<and>
         Password conn' = expandEnvVar env (Password conn) \<and>
         Database conn' = expandEnvVar env (Database conn) \<and>
         ReadOnly conn' = ReadOnly conn \<and>
         Port conn' = (if Port conn = 0 then 3306 else Port conn) \<and>
         MaxRows conn' = (if MaxRows conn = 0 then 1000 else MaxRows conn))) \<and>
   ((name, conn) \<in> set conns \<and> fst (validateAndApplyDefaults env name conn) \<noteq> None \<longrightarrow>
      (\<exists>err. LoadConfig env (Inr (Inr conns)) = Inl err)) \<and>
   (LoadConfig env (Inr (Inr conns)) = Inr loaded \<and> (name, c) \<in> set loaded \<longrightarrow>
      Host c \<noteq> [] \<and> User c \<noteq> [] \<and> Database c \<noteq> [] \<and> Port c \<noteq> 0 \<and> MaxRows c \<noteq> 0) \<and>
   expandEnvVar env v =
     (if \<exists>n. v = ''${'' @ n @ ''}'' \<and> n \<noteq> [] \<and> CHR ''}'' \<notin> set n
      then Getenv env (butlast (drop 2 v)) else v) \<and>
   (env key = None \<longrightarrow> Getenv env key = [])"
proof -
  have one: "validateAndApplyDefaults env name conn = (res, conn') \<longrightarrow>
      res =
        (if expandEnvVar env (Host conn) = [] then
           Some (ConfigurationError, ''connection '' @ quoted name @ '': host is required'')
         else if expandEnvVar env (User conn) = [] then
           Some (ConfigurationError, ''connection '' @ quoted name @ '': user is required'')
         else if expandEnvVar env (Database conn) = [] then
           Some (ConfigurationError, ''connection '' @ quoted name @ '': database is required'')
         else None) \<and>
      (res = None \<longrightarrow>
         Host conn' = expandEnvVar env (Host conn) \<and>
         User conn' = expandEnvVar env (User conn) \<and>
         Password conn' = expandEnvVar env (Password conn) \<and>
         Database conn' = expandEnvVar env (Database conn) \<and>
         ReadOnly conn' = ReadOnly conn \<and>
         Port conn' = (if Port conn = 0 then 3306 else Port conn) \<and>
         MaxRows conn' = (if MaxRows conn = 0 then 1000 else MaxRows conn))"
  proof
    assume v: "validateAndApplyDefaults env name conn = (res, conn')"
    have a: "res =
        (if expandEnvVar env (Host conn) = [] then
           Some (ConfigurationError, ''connection '' @ quoted name @ '': host is required'')
         else if expandEnvVar env (User conn) = [] then
           Some (ConfigurationError, ''connection '' @ quoted name @ '': user is required'')
         else if expandEnvVar env (Database conn) = [] then
           Some (ConfigurationError, ''connection '' @ quoted name @ '': database is required'')
         else None)"
      by (rule validate_error [OF v])
    have b: "res = None \<longrightarrow>
         Host conn' = expandEnvVar env (Host conn) \<and>
         User conn' = expandEnvVar env (User conn) \<and>
         Password conn' = expandEnvVar env (Password conn) \<and>
         Database conn' = expandEnvVar env (Database conn) \<and>
         ReadOnly conn' = ReadOnly conn \<and>
         Port conn' = (if Port conn = 0 then 3306 else Port conn) \<and>
         MaxRows conn' = (if MaxRows conn = 0 then 1000 else MaxRows conn)"
    proof
      assume "res = None"
      with v have v0: "validateAndApplyDefaults env name conn = (None, conn')" by simp
      show "Host conn' = expandEnvVar env (Host conn) \<and>
         User conn' = expandEnvVar env (User conn) \<and>
         Password conn' = expandEnvVar env (Password conn) \<and>
         Database conn' = expandEnvVar env (Database conn) \<and>
         ReadOnly conn' = ReadOnly conn \<and>
         Port conn' = (if Port conn = 0 then 3306 else Port conn) \<and>
         MaxRows conn' = (if MaxRows conn = 0 then 1000 else MaxRows conn)"
        by (intro conjI validate_fields [OF v] validate_defaults [OF v0])
    qed
    from a b show "res =
        (if expandEnvVar env (Host conn) = [] then
           Some (ConfigurationError, ''connection '' @ quoted name @ '': host is required'')
         else if expandEnvVar env (User conn) = [] then
           Some (ConfigurationError, ''connection '' @ quoted name @ '': user is required'')
         else if expandEnvVar env (Database conn) = [] then
           Some (ConfigurationError, ''connection '' @ quoted name @ '': database is required'')
         else None) \<and>
      (res = None \<longrightarrow>
         Host conn' = expandEnvVar env (Host conn) \<and>
         User conn' = expandEnvVar env (User conn) \<and>
         Password conn' = expandEnvVar env (Password conn) \<and>
         Database conn' = expandEnvVar env (Database conn) \<and>
         ReadOnly conn' = ReadOnly conn \<and>
         Port conn' = (if Port conn = 0 then 3306 else Port conn) \<and>
         MaxRows conn' = (if MaxRows conn = 0 then 1000 else MaxRows conn))"
      by (rule conjI)
  qed
  have two: "(name, conn) \<in> set conns \<and> fst (validateAndApplyDefaults env name conn) \<noteq> None \<longrightarrow>
      (\<exists>err. LoadConfig env (Inr (Inr conns)) = Inl err)"
    using LoadConfig_rejects by blast
  have three: "LoadConfig env (Inr (Inr conns)) = Inr loaded \<and> (name, c) \<in> set loaded \<longrightarrow>
      Host c \<noteq> [] \<and> User c \<noteq> [] \<and> Database c \<noteq> [] \<and> Port c \<noteq> 0 \<and> MaxRows c \<noteq> 0"
    using LoadConfig_accepts by blast
  have five: "env key = None \<longrightarrow> Getenv env key = []"
    by (simp add: Getenv_def)
  show ?thesis
    by (intro conjI one two three expandEnvVar_cases five)
qed

theorem config_loading_witness:
  "validateAndApplyDefaults sampleEnv ''main'' rawConn = (None, loadedConn) \<and>
   Port rawConn = 0 \<and> Port loadedConn = 3306 \<and> MaxRows rawConn = 0 \<and> MaxRows loadedConn = 1000 \<and>
   LoadConfig sampleEnv (Inr (Inr [(''main'', rawConn)])) = Inr [(''main'', loadedConn)] \<and>
   Host loadedConn \<noteq> [] \<and>
   expandEnvVar sampleEnv ''${DB_USER}'' = ''app'' \<and>
   expandEnvVar sampleEnv ''${DB_PASS}x'' = ''${DB_PASS}x'' \<and>
   sampleEnv ''DB_HOST'' = None \<and> Getenv sampleEnv ''DB_HOST'' = [] \<and>
   fst (validateAndApplyDefaults sampleEnv ''audit'' rawConnNoHost) =
     Some (ConfigurationError, ''connection '' @ quoted ''audit'' @ '': host is required'') \<and>
   isl (LoadConfig sampleEnv (Inr (Inr [(''main'', rawConn), (''audit'', rawConnNoHost)])))"
proof -
  have v: "validateAndApplyDefaults sampleEnv ''main'' rawConn = (None, loadedConn)"
    by code_simp
  have l: "LoadConfig sampleEnv (Inr (Inr [(''main'', rawConn)])) = Inr [(''main'', loadedConn)]"
    by code_simp
  have mem: "(''main'', loadedConn) \<in> set [(''main'', loadedConn)]" by simp
  have u: "\<exists>n. ''${DB_USER}'' = ''${'' @ n @ ''}'' \<and> n \<noteq> [] \<and> CHR ''}'' \<notin> set n"
    by (rule exI [of _ "''DB_USER''"]) simp
  have g: "Getenv sampleEnv ''DB_USER'' = ''app''" by code_simp
  have nt: "\<not> (\<exists>n. ''${DB_PASS}x'' = ''${'' @ n @ ''}'' \<and> n \<noteq> [] \<and> CHR ''}'' \<notin> set n)"
    by (auto simp: append_eq_Cons_conv Cons_eq_append_conv)
  have unset: "sampleEnv ''DB_HOST'' = None" by (simp add: sampleEnv_def)
  have bad: "fst (validateAndApplyDefaults sampleEnv ''audit'' rawConnNoHost) =
     Some (ConfigurationError, ''connection '' @ quoted ''audit'' @ '': host is required'')"
    by code_simp
  have mem2: "(''audit'', rawConnNoHost) \<in> set [(''main'', rawConn), (''audit'', rawConnNoHost)]"
    by simp
  note A = config_loading [of sampleEnv "''main''" rawConn None loadedConn
      "[(''main'', rawConn)]" "[(''main'', loadedConn)]" loadedConn "''${DB_USER}''" "''DB_HOST''"]
  note B = config_loading [of sampleEnv "''audit''" rawConnNoHost
      "fst (validateAndApplyDefaults sampleEnv ''audit'' rawConnNoHost)"
      "snd (validateAndApplyDefaults sampleEnv ''audit'' rawConnNoHost)"
      "[(''main'', rawConn), (''audit'', rawConnNoHost)]" "[]" rawConn
      "''${DB_PASS}x''" "''DB_HOST''"]
  from A v have 1: "Port loadedConn = (if Port rawConn = 0 then 3306 else Port rawConn) \<and>
      MaxRows loadedConn = (if MaxRows rawConn = 0 then 1000 else MaxRows rawConn)"
    by blast
  from A l mem have 2: "Host loadedConn \<noteq> []" by blast
  from A u have 3: "expandEnvVar sampleEnv ''${DB_USER}'' = Getenv sampleEnv (butlast (drop 2 ''${DB_USER}''))"
    by simp
  from B nt have 4: "expandEnvVar sampleEnv ''${DB_PASS}x'' = ''${DB_PASS}x''"
    by simp
  from A unset have 5: "Getenv sampleEnv ''DB_HOST'' = []" by blast
  from B mem2 bad have 6: "\<exists>err. LoadConfig sampleEnv
      (Inr (Inr [(''main'', rawConn), (''audit'', rawConnNoHost)])) = Inl err"
    by (simp del: set_simps)
  have p0: "Port rawConn = 0" "MaxRows rawConn = 0" by (simp_all add: rawConn_def)
  from 3 g have e3: "expandEnvVar sampleEnv ''${DB_USER}'' = ''app''" by simp
  from 6 have e6: "isl (LoadConfig sampleEnv (Inr (Inr [(''main'', rawConn), (''audit'', rawConnNoHost)])))"
    by auto
  show ?thesis using v l 1 2 e3 4 5 e6 unset bad p0 by simp
qed

section \<open>Facts about the connection manager\<close>

lemma reuseIfAlive_keeps:
  assumes "reuseIfAlive drv m name = (r, m')"
  shows "connections m' = connections m" and "config m' = config m"
    and "\<exists>evs. calls m' = calls m @ evs"
    and "r = Some db \<Longrightarrow> connections m name = Some db"
  using assms
  by (auto simp: reuseIfAlive_def issue_def split: option.splits)

lemma GetConnection_unknown:
  assumes "config m name = None"
  shows "GetConnection drv m name = (Inl (UnknownConnection, ''unknown connection: '' @ name), m)"
  using assms by (simp add: GetConnection_def)

lemma GetConnection_cases:
  assumes g: "GetConnection drv m name = (res, m')"
  shows "(config m name = None \<and> res = Inl (UnknownConnection, ''unknown connection: '' @ name) \<and>
          m' = m) \<or>
         (\<exists>cc evs. config m name = Some cc \<and> config m' = config m \<and> calls m' = calls m @ evs \<and>
            ((\<exists>db. res = Inr (db, cc) \<and> connections m' = (connections m)(name \<mapsto> db)) \<or>
             (\<exists>msg. res = Inl (ConnectionFailure, msg) \<and> connections m' = connections m)))"
proof (cases "config m name")
  case None
  with g show ?thesis by (simp add: GetConnection_def)
next
  case (Some cc)
  obtain r1 m1 where r1: "reuseIfAlive drv m name = (r1, m1)" by (cases "reuseIfAlive drv m name")
  note k1 = reuseIfAlive_keeps [OF r1]
  from k1(3) obtain evs1 where e1: "calls m1 = calls m @ evs1" by blast
  show ?thesis
  proof (cases r1)
    case (Some db)
    with g \<open>config m name = Some cc\<close> r1 have "res = Inr (db, cc)" "m' = m1"
      by (simp_all add: GetConnection_def)
    moreover from k1(4) Some have "connections m name = Some db" by simp
    then have "(connections m)(name \<mapsto> db) = connections m" by (simp add: map_upd_triv)
    ultimately show ?thesis using \<open>config m name = Some cc\<close> k1(1,2) e1 by auto
  next
    case None
    note n1 = None
    obtain r2 m2 where r2: "reuseIfAlive drv m1 name = (r2, m2)"
      by (cases "reuseIfAlive drv m1 name")
    note k2 = reuseIfAlive_keeps [OF r2]
    from k2(3) e1 obtain evs2 where e2: "calls m2 = calls m @ evs2" by auto
    have c2: "connections m2 = connections m" "config m2 = config m"
      using k1(1,2) k2(1,2) by simp_all
    show ?thesis
    proof (cases r2)
      case (Some db)
      with g \<open>config m name = Some cc\<close> r1 n1 r2 have "res = Inr (db, cc)" "m' = m2"
        by (simp_all add: GetConnection_def)
      moreover from k2(4) Some have "connections m1 name = Some db" by simp
      then have "(connections m)(name \<mapsto> db) = connections m"
        using k1(1) by (simp add: map_upd_triv)
      ultimately show ?thesis using \<open>config m name = Some cc\<close> c2 e2 by auto
    next
      case None
      note n2 = None
      show ?thesis
      proof (cases "sqlOpen drv (calls m2) (DSN cc)")
        case (Inl err)
        with g \<open>config m name = Some cc\<close> r1 n1 r2 n2 have
          "res = Inl (ConnectionFailure, ''failed to open connection '' @ quoted name @ '': '' @ err)"
          "m' = issue m2 [EvOpen (DSN cc)]"
          by (simp_all add: GetConnection_def)
        then show ?thesis using \<open>config m name = Some cc\<close> c2 e2 by (auto simp: issue_def)
      next
        case (Inr db)
        let ?m3 = "issue m2 [EvOpen (DSN cc), EvSetMaxOpenConns db 5, EvSetMaxIdleConns db 2]"
        show ?thesis
        proof (cases "dbPing drv (calls ?m3) db")
          case None
          with g \<open>config m name = Some cc\<close> r1 n1 r2 n2 Inr have
            "res = Inr (db, cc)"
            "m' = (issue ?m3 [EvPing db])\<lparr>connections := (connections ?m3)(name \<mapsto> db)\<rparr>"
            by (simp_all add: GetConnection_def Let_def)
          then show ?thesis using \<open>config m name = Some cc\<close> c2 e2 by (auto simp: issue_def)
        next
          case (Some err)
          with g \<open>config m name = Some cc\<close> r1 n1 r2 n2 Inr have
            "res = Inl (ConnectionFailure, ''failed to connect to '' @ quoted name @ '': '' @ err)"
            "m' = issue ?m3 [EvPing db, EvClose db]"
            by (simp_all add: GetConnection_def Let_def)
          then show ?thesis using \<open>config m name = Some cc\<close> c2 e2 by (auto simp: issue_def)
        qed
      qed
    qed
  qed
qed

lemma GetConnection_error:
  assumes "GetConnection drv m name = (Inl e, m')"
  shows "connections m' = connections m" and "config m' = config m"
    and "config m name \<noteq> None \<Longrightarrow> fst e = ConnectionFailure"
  using GetConnection_cases [OF assms] by auto

lemma GetConnection_probe_failure:
  assumes reg: "config m name = Some cc"
    and r1: "reuseIfAlive drv m name = (None, m1)"
    and r2: "reuseIfAlive drv m1 name = (None, m2)"
    and op: "sqlOpen drv (calls m2) (DSN cc) = Inr db"
    and pg: "dbPing drv (calls m2 @ [EvOpen (DSN cc), EvSetMaxOpenConns db 5, EvSetMaxIdleConns db 2]) db
             = Some err"
  shows "fst (GetConnection drv m name) =
           Inl (ConnectionFailure, ''failed to connect to '' @ quoted name @ '': '' @ err)"
    and "connections (snd (GetConnection drv m name)) = connections m"
proof -
  show 1: "fst (GetConnection drv m name) =
           Inl (ConnectionFailure, ''failed to connect to '' @ quoted name @ '': '' @ err)"
    using assms by (simp add: GetConnection_def Let_def issue_def)
  then have "GetConnection drv m name =
     (Inl (ConnectionFailure, ''failed to connect to '' @ quoted name @ '': '' @ err),
      snd (GetConnection drv m name))"
    by (metis prod.collapse)
  from GetConnection_error(1) [OF this]
  show "connections (snd (GetConnection drv m name)) = connections m" .
qed

lemma GetConnection_ok:
  assumes "GetConnection drv m name = (Inr (db, cc), m')"
  shows "config m name = Some cc" and "config m' = config m"
    and "connections m' = (connections m)(name \<mapsto> db)"
    and "\<exists>evs. calls m' = calls m @ evs"
  using GetConnection_cases [OF assms] by auto

text \<open>
  C5, as the code has it. For a name that is not in the registry \<open>GetConnection\<close> fails
  with the unknown-connection error and leaves the manager as it was. For a registered name
  with no reusable handle, when the newly opened handle fails its ping, \<open>GetConnection\<close>
  fails with a connection-failure error and the pool is exactly the pool before the call: the
  new handle is not stored, an entry that was unset stays unset, and a stale entry stays what
  it was. Every failure of \<open>GetConnection\<close> leaves the pool unchanged.
\<close>

theorem resolve_failures:
  "(config m name = None \<longrightarrow>
      GetConnection drv m name = (Inl (UnknownConnection, ''unknown connection: '' @ name), m)) \<and>
   (config m name = Some cc \<and> reuseIfAlive drv m name = (None, m1) \<and>
    reuseIfAlive drv m1 name = (None, m2) \<and> sqlOpen drv (calls m2) (DSN cc) = Inr db \<and>
    dbPing drv (calls m2 @ [EvOpen (DSN cc), EvSetMaxOpenConns db 5, EvSetMaxIdleConns db 2]) db
      = Some err \<longrightarrow>
      fst (GetConnection drv m name) =
        Inl (ConnectionFailure, ''failed to connect to '' @ quoted name @ '': '' @ err) \<and>
      connections (snd (GetConnection drv m name)) = connections m) \<and>
   (GetConnection drv m name = (Inl e, m') \<longrightarrow> connections m' = connections m)"
  using GetConnection_unknown [of m name drv]
    GetConnection_probe_failure [of m name cc drv m1 m2 db err]
    GetConnection_error(1) [of drv m name e m']
  by blast

theorem resolve_failures_witness:
  "config staleManager ''reports'' = None \<and>
   fst (GetConnection healthyDriver staleManager ''reports'') =
     Inl (UnknownConnection, ''unknown connection: reports'') \<and>
   connections (snd (GetConnection healthyDriver staleManager ''reports'')) ''main'' = Some 7 \<and>
   config (NewManager sampleRegistry) ''main'' = Some sampleConn \<and>
   fst (reuseIfAlive unreachableDriver (NewManager sampleRegistry) ''main'') = None \<and>
   sqlOpen unreachableDriver [] (DSN sampleConn) = Inr 0 \<and>
   fst (GetConnection unreachableDriver (NewManager sampleRegistry) ''main'') =
     Inl (ConnectionFailure, ''failed to connect to '' @ quoted ''main'' @ '': connection refused'') \<and>
   connections (snd (GetConnection unreachableDriver (NewManager sampleRegistry) ''main'')) ''main''
     = None"
proof -
  let ?M = "NewManager sampleRegistry"
  have a: "config staleManager ''reports'' = None" by code_simp
  have b: "config ?M ''main'' = Some sampleConn" by code_simp
  have r: "reuseIfAlive unreachableDriver ?M ''main'' = (None, ?M)"
    by (simp add: reuseIfAlive_def NewManager_def)
  have c: "calls ?M = []" by (simp add: NewManager_def)
  have d: "sqlOpen unreachableDriver (calls ?M) (DSN sampleConn) = Inr 0"
    by (simp add: unreachableDriver_def healthyDriver_def NewManager_def)
  have p: "dbPing unreachableDriver
             (calls ?M @ [EvOpen (DSN sampleConn), EvSetMaxOpenConns 0 5, EvSetMaxIdleConns 0 2]) 0
           = Some ''connection refused''"
    by (simp add: unreachableDriver_def)
  have e: "connections ?M ''main'' = None" by (simp add: NewManager_def)
  have s: "connections staleManager ''main'' = Some 7" by (simp add: staleManager_def)
  from resolve_failures [of staleManager "''reports''" healthyDriver] a
  have 1: "GetConnection healthyDriver staleManager ''reports'' =
             (Inl (UnknownConnection, ''unknown connection: '' @ ''reports''), staleManager)"
    by blast
  from resolve_failures [of ?M "''main''" unreachableDriver sampleConn ?M ?M 0 "''connection refused''"]
    b r d p
  have 2: "fst (GetConnection unreachableDriver ?M ''main'') =
             Inl (ConnectionFailure, ''failed to connect to '' @ quoted ''main'' @ '': '' @ ''connection refused'') \<and>
           connections (snd (GetConnection unreachableDriver ?M ''main'')) = connections ?M"
    by blast
  show ?thesis using a b r c d e s 1 2 by simp
qed

text \<open>
  C5 as stated says that after a failed probe of the new handle the pool entry of the name is
  unset. With a stale handle 7 pooled under \<open>main\<close> and a driver whose pings fail, the
  call closes handle 7, opens handle 4, fails its probe and returns the connection-failure
  error; the entry of \<open>main\<close> still holds handle 7.
\<close>

theorem resolve_stale_entry_counterexample:
  "config staleManager ''main'' = Some sampleConn \<and>
   connections staleManager ''main'' = Some 7 \<and>
   sqlOpen unreachableDriver
     (calls (snd (reuseIfAlive unreachableDriver
                   (snd (reuseIfAlive unreachableDriver staleManager ''main'')) ''main'')))
     (DSN sampleConn) = Inr 4 \<and>
   fst (GetConnection unreachableDriver staleManager ''main'') =
     Inl (ConnectionFailure, ''failed to connect to '' @ quoted ''main'' @ '': connection refused'') \<and>
   connections (snd (GetConnection unreachableDriver staleManager ''main'')) ''main'' = Some 7 \<and>
   connections (snd (GetConnection unreachableDriver staleManager ''main'')) ''main'' \<noteq> None"
  by code_simp


lemma runQuery_calls:
  "calls (snd (runQuery drv m db cc q)) = calls m @ [EvQuery db q]"
  "connections (snd (runQuery drv m db cc q)) = connections m"
  "config (snd (runQuery drv m db cc q)) = config m"
  by (auto simp: runQuery_def Let_def issue_def split: sum.splits prod.splits)

lemma runQuery_kind:
  "errorKind (fst (runQuery drv m db cc q)) \<in> {None, Some ExecutionFailure, Some ResultDecodeFailure}"
  by (auto simp: runQuery_def Let_def errorKind_def split: sum.splits prod.splits)


lemma ExecuteQuery_resolved:
  assumes "GetConnection drv m name = (Inr (db, cc), m1)"
  shows "ExecuteQuery drv m name sql =
     (if ReadOnly cc \<and> \<not> isReadOnlyQuery sql then
        (Inl (ReadOnlyViolation,
              ''connection '' @ quoted name @ '' is read-only, write operations are not allowed''), m1)
      else if \<not> ReadOnly cc \<and> isDangerousQuery sql then
        (Inl (DangerousOperationBlocked,
              ''dangerous operations (DROP, ALTER, TRUNCATE, CREATE, GRANT, REVOKE) are not allowed''),
         m1)
      else if isSensitiveQuery sql then
        (Inl (SensitiveAccessBlocked, ''access to sensitive MySQL metadata is not allowed''), m1)
      else runQuery drv m1 db cc sql)"
  using assms by (simp add: ExecuteQuery_def)

lemma sample_resolve_main:
  "GetConnection healthyDriver (NewManager sampleRegistry) ''main'' =
     (Inr (0, sampleConn), snd (GetConnection healthyDriver (NewManager sampleRegistry) ''main''))"
proof -
  have "fst (GetConnection healthyDriver (NewManager sampleRegistry) ''main'') = Inr (0, sampleConn)"
    by code_simp
  then show ?thesis by (metis prod.collapse)
qed

lemma sample_resolve_replica:
  "GetConnection healthyDriver (NewManager sampleRegistry) ''replica'' =
     (Inr (0, sampleReadOnlyConn),
      snd (GetConnection healthyDriver (NewManager sampleRegistry) ''replica''))"
proof -
  have "fst (GetConnection healthyDriver (NewManager sampleRegistry) ''replica'')
          = Inr (0, sampleReadOnlyConn)"
    by code_simp
  then show ?thesis by (metis prod.collapse)
qed



lemma isReadOnlyQuery_prefixes:
  "isReadOnlyQuery sql \<longleftrightarrow>
     HasPrefix (TrimSpace (ToUpper sql)) ''SELECT'' \<or> HasPrefix (TrimSpace (ToUpper sql)) ''SHOW'' \<or>
     HasPrefix (TrimSpace (ToUpper sql)) ''DESCRIBE'' \<or> HasPrefix (TrimSpace (ToUpper sql)) ''DESC'' \<or>
     HasPrefix (TrimSpace (ToUpper sql)) ''EXPLAIN''"
  by (simp add: isReadOnlyQuery_def)

text \<open>
  C2, as the code has it. On a resolved connection \<open>ExecuteQuery\<close> fails with the
  read-only violation exactly when the connection is read-only and the text predicate
  \<open>isReadOnlyQuery\<close> is false, that is, when the upper-cased, trimmed statement begins with
  none of SELECT, SHOW, DESCRIBE, DESC, EXPLAIN; with the dangerous-operation error exactly when
  the connection is not read-only and \<open>isDangerousQuery\<close> holds; with the sensitive-access
  error exactly when neither of these gates fires and \<open>isSensitiveQuery\<close> holds. When a gate
  fires no call is issued after the resolution; otherwise the statement is issued once, as a
  query.
\<close>

theorem query_gates:
  assumes res: "GetConnection drv m name = (Inr (db, cc), m1)"
    and run: "ExecuteQuery drv m name sql = (out, m')"
  shows "(errorKind out = Some ReadOnlyViolation \<longleftrightarrow> ReadOnly cc \<and> \<not> isReadOnlyQuery sql) \<and>
         (errorKind out = Some DangerousOperationBlocked \<longleftrightarrow> \<not> ReadOnly cc \<and> isDangerousQuery sql) \<and>
         (errorKind out = Some SensitiveAccessBlocked \<longleftrightarrow>
            \<not> (ReadOnly cc \<and> \<not> isReadOnlyQuery sql) \<and> \<not> (\<not> ReadOnly cc \<and> isDangerousQuery sql) \<and>
            isSensitiveQuery sql) \<and>
         (calls m' =
            (if (ReadOnly cc \<and> \<not> isReadOnlyQuery sql) \<or> (\<not> ReadOnly cc \<and> isDangerousQuery sql) \<or>
                isSensitiveQuery sql
             then calls m1 else calls m1 @ [EvQuery db sql])) \<and>
         (isReadOnlyQuery sql \<longleftrightarrow>
            HasPrefix (TrimSpace (ToUpper sql)) ''SELECT'' \<or> HasPrefix (TrimSpace (ToUpper sql)) ''SHOW'' \<or>
            HasPrefix (TrimSpace (ToUpper sql)) ''DESCRIBE'' \<or> HasPrefix (TrimSpace (ToUpper sql)) ''DESC'' \<or>
            HasPrefix (TrimSpace (ToUpper sql)) ''EXPLAIN'')"
proof -
  let ?ro = "ReadOnly cc \<and> \<not> isReadOnlyQuery sql"
  let ?dg = "\<not> ReadOnly cc \<and> isDangerousQuery sql"
  consider (ro) "?ro" | (dg) "\<not> ?ro" "?dg" | (se) "\<not> ?ro" "\<not> ?dg" "isSensitiveQuery sql"
    | (go) "\<not> ?ro" "\<not> ?dg" "\<not> isSensitiveQuery sql"
    by blast
  then have main:
    "(errorKind out = Some ReadOnlyViolation \<longleftrightarrow> ?ro) \<and>
     (errorKind out = Some DangerousOperationBlocked \<longleftrightarrow> ?dg) \<and>
     (errorKind out = Some SensitiveAccessBlocked \<longleftrightarrow> \<not> ?ro \<and> \<not> ?dg \<and> isSensitiveQuery sql) \<and>
     (calls m' = (if ?ro \<or> ?dg \<or> isSensitiveQuery sql then calls m1 else calls m1 @ [EvQuery db sql]))"
  proof cases
    case ro
    with run have "out = Inl (ReadOnlyViolation,
        ''connection '' @ quoted name @ '' is read-only, write operations are not allowed'')" "m' = m1"
      unfolding ExecuteQuery_resolved [OF res] by simp_all
    with ro show ?thesis by (simp add: errorKind_def)
  next
    case dg
    with run have "out = Inl (DangerousOperationBlocked,
        ''dangerous operations (DROP, ALTER, TRUNCATE, CREATE, GRANT, REVOKE) are not allowed'')"
      "m' = m1"
      unfolding ExecuteQuery_resolved [OF res] by simp_all
    with dg show ?thesis by (simp add: errorKind_def)
  next
    case se
    with run have "out = Inl (SensitiveAccessBlocked,
        ''access to sensitive MySQL metadata is not allowed'')" "m' = m1"
      unfolding ExecuteQuery_resolved [OF res] by auto
    with se show ?thesis by (simp add: errorKind_def)
  next
    case go
    with run have r: "runQuery drv m1 db cc sql = (out, m')"
      unfolding ExecuteQuery_resolved [OF res] by auto
    from r have o: "out = fst (runQuery drv m1 db cc sql)" and m: "m' = snd (runQuery drv m1 db cc sql)"
      by simp_all
    have k: "errorKind out \<in> {None, Some ExecutionFailure, Some ResultDecodeFailure}"
      unfolding o by (rule runQuery_kind)
    have c: "calls m' = calls m1 @ [EvQuery db sql]"
      unfolding m by (rule runQuery_calls)
    from k c go show ?thesis by auto
  qed
  with isReadOnlyQuery_prefixes [of sql] show ?thesis by blast
qed

theorem query_gates_witness:
  "ReadOnly sampleReadOnlyConn \<and> \<not> isReadOnlyQuery ''UPDATE t SET x=1'' \<and>
   errorKind (fst (ExecuteQuery healthyDriver (NewManager sampleRegistry) ''replica''
                    ''UPDATE t SET x=1'')) = Some ReadOnlyViolation \<and>
   calls (snd (ExecuteQuery healthyDriver (NewManager sampleRegistry) ''replica''
                    ''UPDATE t SET x=1'')) =
   calls (snd (GetConnection healthyDriver (NewManager sampleRegistry) ''replica''))"
proof -
  let ?M = "NewManager sampleRegistry"
  let ?E = "ExecuteQuery healthyDriver ?M ''replica'' ''UPDATE t SET x=1''"
  have ro: "ReadOnly sampleReadOnlyConn" by (simp add: sampleReadOnlyConn_def)
  have nq: "\<not> isReadOnlyQuery ''UPDATE t SET x=1''" by code_simp
  have run: "?E = (fst ?E, snd ?E)" by simp
  from query_gates [OF sample_resolve_replica run] ro nq
  show ?thesis by simp
qed

text \<open>
  C2 as stated decides the read-only gate by \<open>IsReadOnlyQueryType (DetectQueryType sql)\<close>.
  The statement \<open>DESC\<close>, tab, \<open>users\<close> has the detected type UNKNOWN, which is not
  read-only, yet on the read-only connection \<open>replica\<close> it is not refused: it passes the
  gate, which tests the prefix \<open>DESC\<close> without a space, and is issued to the driver.
\<close>

theorem query_gate_by_type_counterexample:
  "ReadOnly sampleReadOnlyConn \<and>
   \<not> IsReadOnlyQueryType (DetectQueryType (''DESC'' @ [CHR 0x09] @ ''users'')) \<and>
   fst (GetConnection healthyDriver (NewManager sampleRegistry) ''replica'')
     = Inr (0, sampleReadOnlyConn) \<and>
   errorKind (fst (ExecuteQuery healthyDriver (NewManager sampleRegistry) ''replica''
                    (''DESC'' @ [CHR 0x09] @ ''users''))) \<noteq> Some ReadOnlyViolation \<and>
   last (calls (snd (ExecuteQuery healthyDriver (NewManager sampleRegistry) ''replica''
                    (''DESC'' @ [CHR 0x09] @ ''users'')))) =
     EvQuery 0 (''DESC'' @ [CHR 0x09] @ ''users'')"
  by code_simp

lemma runExec_calls:
  "calls (snd (runExec drv m db q)) = calls m @ [EvExec db q]"
  "connections (snd (runExec drv m db q)) = connections m"
  "config (snd (runExec drv m db q)) = config m"
  by (auto simp: runExec_def Let_def issue_def split: sum.splits prod.splits)

lemma runExec_kind:
  "errorKind (fst (runExec drv m db q)) \<in> {None, Some ExecutionFailure}"
  by (auto simp: runExec_def Let_def errorKind_def split: sum.splits prod.splits)

lemma firstContained_Some_iff:
  "(\<exists>p. firstContained q ps = Some p) \<longleftrightarrow> (\<exists>p \<in> set ps. Contains q p)"
  by (induction ps) auto

lemma firstContained_blocked:
  "(\<exists>p. firstContained q blockedPatterns = Some p) \<longleftrightarrow>
     Contains q ''DROP DATABASE'' \<or> Contains q ''DROP SCHEMA'' \<or> Contains q ''TRUNCATE'' \<or>
     Contains q ''CREATE DATABASE'' \<or> Contains q ''GRANT'' \<or> Contains q ''REVOKE''"
  unfolding firstContained_Some_iff by (simp add: blockedPatterns_def)

lemma ValidateQueryType_alter:
  "ValidateQueryType sql [QueryTypeAlter] =
     (if DetectQueryType sql = QueryTypeAlter then None
      else Some (QueryTypeMismatch,
             ''query type mismatch: expected ALTER, got '' @ GetQueryTypeLabel (DetectQueryType sql) @
             ''. Use the appropriate tool for this query type''))"
  by (simp add: ValidateQueryType_def Let_def)

lemma ExecuteAlter_resolved:
  assumes "GetConnection drv m name = (Inr (db, cc), m1)" "\<not> ReadOnly cc"
  shows "ExecuteAlter drv m name sql =
     (if DetectQueryType sql \<noteq> QueryTypeAlter then
        (Inl (QueryTypeMismatch,
              ''query type mismatch: expected ALTER, got '' @ GetQueryTypeLabel (DetectQueryType sql) @
              ''. Use the appropriate tool for this query type''), m1)
      else
        (case firstContained (ToUpper (TrimSpace sql)) blockedPatterns of
           Some pattern \<Rightarrow>
             (Inl (DangerousOperationBlocked,
                   ''operation '' @ quoted pattern @
                   '' is not allowed even with mysql_alter. Use mysql_execute_unsafe if absolutely necessary''),
              m1)
         | None \<Rightarrow>
             if isSensitiveQuery sql then
               (Inl (SensitiveAccessBlocked, ''access to sensitive MySQL metadata is not allowed''), m1)
             else
               (case runExec drv m1 db sql of
                  (Inl err, m2) \<Rightarrow> (Inl err, m2)
                | (Inr (rowsAffected, lastInsertID), m2) \<Rightarrow>
                    (Inr \<lparr>RowsAffected = rowsAffected, LastInsertID = 0\<rparr>, m2))))"
  using assms by (simp add: ExecuteAlter_def ValidateQueryType_alter)

text \<open>
  C4. On a resolved connection that is not read-only, \<open>ExecuteAlter\<close> fails with the
  type-mismatch error whenever the detected type is not ALTER; when it is ALTER and the
  trimmed, upper-cased statement contains DROP DATABASE, DROP SCHEMA, TRUNCATE, CREATE DATABASE,
  GRANT or REVOKE, it fails with the dangerous-operation error and issues nothing. The
  statement \<open>ALTER TABLE t ADD COLUMN y INT\<close> passes every gate and is issued to the driver;
  \<open>ALTER TABLE t; DROP DATABASE prod\<close> is refused, naming DROP DATABASE.
\<close>

theorem alter_gates:
  assumes res: "GetConnection drv m name = (Inr (db, cc), m1)"
    and rw: "\<not> ReadOnly cc"
  shows "(DetectQueryType sql \<noteq> QueryTypeAlter \<longrightarrow>
            ExecuteAlter drv m name sql =
              (Inl (QueryTypeMismatch,
                    ''query type mismatch: expected ALTER, got '' @
                    GetQueryTypeLabel (DetectQueryType sql) @
                    ''. Use the appropriate tool for this query type''), m1)) \<and>
         (DetectQueryType sql = QueryTypeAlter \<and>
          (Contains (ToUpper (TrimSpace sql)) ''DROP DATABASE'' \<or>
           Contains (ToUpper (TrimSpace sql)) ''DROP SCHEMA'' \<or>
           Contains (ToUpper (TrimSpace sql)) ''TRUNCATE'' \<or>
           Contains (ToUpper (TrimSpace sql)) ''CREATE DATABASE'' \<or>
           Contains (ToUpper (TrimSpace sql)) ''GRANT'' \<or>
           Contains (ToUpper (TrimSpace sql)) ''REVOKE'') \<longrightarrow>
            errorKind (fst (ExecuteAlter drv m name sql)) = Some DangerousOperationBlocked \<and>
            snd (ExecuteAlter drv m name sql) = m1) \<and>
         errorKind (fst (ExecuteAlter drv m name ''ALTER TABLE t ADD COLUMN y INT''))
           \<in> {None, Some ExecutionFailure} \<and>
         calls (snd (ExecuteAlter drv m name ''ALTER TABLE t ADD COLUMN y INT'')) =
           calls m1 @ [EvExec db ''ALTER TABLE t ADD COLUMN y INT''] \<and>
         ExecuteAlter drv m name ''ALTER TABLE t; DROP DATABASE prod'' =
           (Inl (DangerousOperationBlocked,
                 ''operation '' @ quoted ''DROP DATABASE'' @
                 '' is not allowed even with mysql_alter. Use mysql_execute_unsafe if absolutely necessary''),
            m1)"
proof -
  note unf = ExecuteAlter_resolved [OF res rw]
  have mismatch: "DetectQueryType sql \<noteq> QueryTypeAlter \<longrightarrow>
            ExecuteAlter drv m name sql =
              (Inl (QueryTypeMismatch,
                    ''query type mismatch: expected ALTER, got '' @
                    GetQueryTypeLabel (DetectQueryType sql) @
                    ''. Use the appropriate tool for this query type''), m1)"
    by (simp add: unf)
  have blocked: "DetectQueryType sql = QueryTypeAlter \<and>
          (Contains (ToUpper (TrimSpace sql)) ''DROP DATABASE'' \<or>
           Contains (ToUpper (TrimSpace sql)) ''DROP SCHEMA'' \<or>
           Contains (ToUpper (TrimSpace sql)) ''TRUNCATE'' \<or>
           Contains (ToUpper (TrimSpace sql)) ''CREATE DATABASE'' \<or>
           Contains (ToUpper (TrimSpace sql)) ''GRANT'' \<or>
           Contains (ToUpper (TrimSpace sql)) ''REVOKE'') \<longrightarrow>
            errorKind (fst (ExecuteAlter drv m name sql)) = Some DangerousOperationBlocked \<and>
            snd (ExecuteAlter drv m name sql) = m1"
  proof
    assume a: "DetectQueryType sql = QueryTypeAlter \<and>
          (Contains (ToUpper (TrimSpace sql)) ''DROP DATABASE'' \<or>
           Contains (ToUpper (TrimSpace sql)) ''DROP SCHEMA'' \<or>
           Contains (ToUpper (TrimSpace sql)) ''TRUNCATE'' \<or>
           Contains (ToUpper (TrimSpace sql)) ''CREATE DATABASE'' \<or>
           Contains (ToUpper (TrimSpace sql)) ''GRANT'' \<or>
           Contains (ToUpper (TrimSpace sql)) ''REVOKE'')"
    then obtain p where "firstContained (ToUpper (TrimSpace sql)) blockedPatterns = Some p"
      using firstContained_blocked [of "ToUpper (TrimSpace sql)"] by blast
    with a show "errorKind (fst (ExecuteAlter drv m name sql)) = Some DangerousOperationBlocked \<and>
            snd (ExecuteAlter drv m name sql) = m1"
      by (simp add: unf [of sql] errorKind_def)
  qed
  have plain: "DetectQueryType ''ALTER TABLE t ADD COLUMN y INT'' = QueryTypeAlter \<and>
      firstContained (ToUpper (TrimSpace ''ALTER TABLE t ADD COLUMN y INT'')) blockedPatterns = None \<and>
      \<not> isSensitiveQuery ''ALTER TABLE t ADD COLUMN y INT''"
    by code_simp
  have run: "ExecuteAlter drv m name ''ALTER TABLE t ADD COLUMN y INT'' =
      (case runExec drv m1 db ''ALTER TABLE t ADD COLUMN y INT'' of
         (Inl err, m2) \<Rightarrow> (Inl err, m2)
       | (Inr (rowsAffected, lastInsertID), m2) \<Rightarrow>
           (Inr \<lparr>RowsAffected = rowsAffected, LastInsertID = 0\<rparr>, m2))"
    using plain by (simp add: unf [of "''ALTER TABLE t ADD COLUMN y INT''"])
  have passes_kind: "errorKind (fst (ExecuteAlter drv m name ''ALTER TABLE t ADD COLUMN y INT''))
           \<in> {None, Some ExecutionFailure}"
    using runExec_kind [of drv m1 db "''ALTER TABLE t ADD COLUMN y INT''"]
    unfolding run by (auto simp: errorKind_def split: prod.splits sum.splits)
  have passes_calls: "calls (snd (ExecuteAlter drv m name ''ALTER TABLE t ADD COLUMN y INT'')) =
           calls m1 @ [EvExec db ''ALTER TABLE t ADD COLUMN y INT'']"
    using runExec_calls(1) [of drv m1 db "''ALTER TABLE t ADD COLUMN y INT''"]
    unfolding run by (auto split: prod.splits sum.splits)
  have smuggle: "DetectQueryType ''ALTER TABLE t; DROP DATABASE prod'' = QueryTypeAlter \<and>
      firstContained (ToUpper (TrimSpace ''ALTER TABLE t; DROP DATABASE prod'')) blockedPatterns
        = Some ''DROP DATABASE''"
    by code_simp
  have rejected: "ExecuteAlter drv m name ''ALTER TABLE t; DROP DATABASE prod'' =
           (Inl (DangerousOperationBlocked,
                 ''operation '' @ quoted ''DROP DATABASE'' @
                 '' is not allowed even with mysql_alter. Use mysql_execute_unsafe if absolutely necessary''),
            m1)"
    using smuggle by (simp add: unf [of "''ALTER TABLE t; DROP DATABASE prod''"])
  show ?thesis
    by (intro conjI mismatch blocked passes_kind passes_calls rejected)
qed

theorem alter_gates_witness:
  "\<not> ReadOnly sampleConn \<and>
   DetectQueryType ''DROP TABLE t'' \<noteq> QueryTypeAlter \<and>
   errorKind (fst (ExecuteAlter healthyDriver (NewManager sampleRegistry) ''main'' ''DROP TABLE t''))
     = Some QueryTypeMismatch \<and>
   DetectQueryType ''alter table t comment 'revoke' '' = QueryTypeAlter \<and>
   Contains (ToUpper (TrimSpace ''alter table t comment 'revoke' '')) ''REVOKE'' \<and>
   errorKind (fst (ExecuteAlter healthyDriver (NewManager sampleRegistry) ''main''
                    ''alter table t comment 'revoke' '')) = Some DangerousOperationBlocked \<and>
   errorKind (fst (ExecuteAlter healthyDriver (NewManager sampleRegistry) ''main''
                    ''ALTER TABLE t ADD COLUMN y INT'')) = None"
proof -
  let ?M = "NewManager sampleRegistry"
  have rw: "\<not> ReadOnly sampleConn" by (simp add: sampleConn_def)
  have a: "DetectQueryType ''DROP TABLE t'' \<noteq> QueryTypeAlter" by code_simp
  have b: "DetectQueryType ''alter table t comment 'revoke' '' = QueryTypeAlter" by code_simp
  have c: "Contains (ToUpper (TrimSpace ''alter table t comment 'revoke' '')) ''REVOKE''"
    by code_simp
  have d: "errorKind (fst (ExecuteAlter healthyDriver ?M ''main''
                    ''ALTER TABLE t ADD COLUMN y INT'')) \<noteq> Some ExecutionFailure"
    by code_simp
  from alter_gates [OF sample_resolve_main rw, of "''DROP TABLE t''"]
    alter_gates [OF sample_resolve_main rw, of "''alter table t comment 'revoke' ''"]
    rw a b c d
  show ?thesis by (simp add: errorKind_def)
qed

lemma skippedCheckMsgOf_cases:
  "skippedCheckMsgOf sql =
   (if isDangerousQuery sql then
      if isSensitiveQuery sql then ''dangerous query blocking, sensitive query blocking''
      else ''dangerous query blocking''
    else if isSensitiveQuery sql then ''sensitive query blocking'' else ''none'')"
  by (simp add: skippedCheckMsgOf_def skippedChecksOf_def Let_def)

lemma ExecuteUnsafe_resolved:
  assumes "GetConnection drv m name = (Inr (db, cc), m1)"
  shows "ExecuteUnsafe drv m name sql =
     (if ReadOnly cc \<and> \<not> IsReadOnlyQueryType (DetectQueryType sql) then
        (Inl (ReadOnlyViolation,
              ''connection '' @ quoted name @
              '' is read-only, write operations are not allowed (even with unsafe mode)''), m1)
      else if IsReadOnlyQueryType (DetectQueryType sql) then
        (case runQuery drv m1 db cc sql of
           (Inl err, m2) \<Rightarrow> (Inl err, m2)
         | (Inr queryResult, m2) \<Rightarrow>
             (Inr \<lparr>QueryResult = Some queryResult, WriteResult = None,
                   Warning = ''UNSAFE EXECUTION: This query bypassed safety checks. Ensure you understand the implications.'',
                   SkippedCheck =
                     (if isDangerousQuery sql then
                        if isSensitiveQuery sql
                        then ''dangerous query blocking, sensitive query blocking''
                        else ''dangerous query blocking''
                      else if isSensitiveQuery sql then ''sensitive query blocking'' else ''none'')\<rparr>,
              m2))
      else
        (case runExec drv m1 db sql of
           (Inl err, m2) \<Rightarrow> (Inl err, m2)
         | (Inr (rowsAffected, lastInsertID), m2) \<Rightarrow>
             (Inr \<lparr>QueryResult = None,
                   WriteResult = Some \<lparr>RowsAffected = rowsAffected, LastInsertID = lastInsertID\<rparr>,
                   Warning = ''UNSAFE EXECUTION: This query bypassed safety checks. Ensure you understand the implications.'',
                   SkippedCheck =
                     (if isDangerousQuery sql then
                        if isSensitiveQuery sql
                        then ''dangerous query blocking, sensitive query blocking''
                        else ''dangerous query blocking''
                      else if isSensitiveQuery sql then ''sensitive query blocking'' else ''none'')\<rparr>,
              m2)))"
  using assms
  by (simp add: ExecuteUnsafe_def Let_def skippedCheckMsgOf_cases split: prod.splits sum.splits)

text \<open>
  C1. On a resolved connection, when the connection is read-only and the detected type of the
  statement is not read-only, \<open>ExecuteUnsafe\<close> fails with the read-only violation and issues
  nothing. In every other case it issues the statement once (as a query when the detected type
  is read-only, as an exec otherwise) and can fail only with an error of the driver or of
  decoding its result, never for the dangerous or the sensitive check; a successful result
  names in its skipped-check field the checks that apply to the statement (\<open>none\<close> when
  neither does), and exactly one of its two result fields is populated: the query result when
  the detected type is read-only, the write result otherwise.
\<close>

theorem unsafe_gates:
  assumes res: "GetConnection drv m name = (Inr (db, cc), m1)"
    and run: "ExecuteUnsafe drv m name sql = (out, m')"
  shows "(ReadOnly cc \<and> \<not> IsReadOnlyQueryType (DetectQueryType sql) \<longrightarrow>
            out = Inl (ReadOnlyViolation,
                       ''connection '' @ quoted name @
                       '' is read-only, write operations are not allowed (even with unsafe mode)'') \<and>
            m' = m1) \<and>
         (\<not> (ReadOnly cc \<and> \<not> IsReadOnlyQueryType (DetectQueryType sql)) \<longrightarrow>
            errorKind out \<in> {None, Some ExecutionFailure, Some ResultDecodeFailure} \<and>
            calls m' = calls m1 @
              [if IsReadOnlyQueryType (DetectQueryType sql) then EvQuery db sql else EvExec db sql] \<and>
            (\<forall>r. out = Inr r \<longrightarrow>
               SkippedCheck r =
                 (if isDangerousQuery sql then
                    if isSensitiveQuery sql
                    then ''dangerous query blocking, sensitive query blocking''
                    else ''dangerous query blocking''
                  else if isSensitiveQuery sql then ''sensitive query blocking'' else ''none'') \<and>
               (QueryResult r \<noteq> None \<longleftrightarrow> IsReadOnlyQueryType (DetectQueryType sql)) \<and>
               (WriteResult r \<noteq> None \<longleftrightarrow> \<not> IsReadOnlyQueryType (DetectQueryType sql))))"
proof (cases "ReadOnly cc \<and> \<not> IsReadOnlyQueryType (DetectQueryType sql)")
  case True
  with run show ?thesis
    unfolding ExecuteUnsafe_resolved [OF res] by simp
next
  case False
  note gate = False
  show ?thesis
  proof (cases "IsReadOnlyQueryType (DetectQueryType sql)")
    case True
    obtain o2 m2 where rq: "runQuery drv m1 db cc sql = (o2, m2)"
      by (cases "runQuery drv m1 db cc sql")
    from runQuery_kind [of drv m1 db cc sql] runQuery_calls(1) [of drv m1 db cc sql] rq
    have k: "errorKind o2 \<in> {None, Some ExecutionFailure, Some ResultDecodeFailure}"
      and c: "calls m2 = calls m1 @ [EvQuery db sql]"
      by simp_all
    from run gate True rq have "m' = m2"
      unfolding ExecuteUnsafe_resolved [OF res] by (auto split: sum.splits)
    moreover from run gate True rq have
      "(\<exists>e. o2 = Inl e \<and> out = Inl e) \<or>
       (\<exists>qr. o2 = Inr qr \<and> out = Inr \<lparr>QueryResult = Some qr, WriteResult = None,
            Warning = ''UNSAFE EXECUTION: This query bypassed safety checks. Ensure you understand the implications.'',
            SkippedCheck =
              (if isDangerousQuery sql then
                 if isSensitiveQuery sql
                 then ''dangerous query blocking, sensitive query blocking''
                 else ''dangerous query blocking''
               else if isSensitiveQuery sql then ''sensitive query blocking'' else ''none'')\<rparr>)"
      unfolding ExecuteUnsafe_resolved [OF res] by (auto split: sum.splits)
    ultimately show ?thesis using k c gate True
      by (auto simp: errorKind_def)
  next
    case False
    obtain o2 m2 where rx: "runExec drv m1 db sql = (o2, m2)"
      by (cases "runExec drv m1 db sql")
    from runExec_kind [of drv m1 db sql] runExec_calls(1) [of drv m1 db sql] rx
    have k: "errorKind o2 \<in> {None, Some ExecutionFailure}"
      and c: "calls m2 = calls m1 @ [EvExec db sql]"
      by simp_all
    from run gate False rx have "m' = m2"
      unfolding ExecuteUnsafe_resolved [OF res] by (auto split: sum.splits prod.splits)
    moreover from run gate False rx have
      "(\<exists>e. o2 = Inl e \<and> out = Inl e) \<or>
       (\<exists>ra li. o2 = Inr (ra, li) \<and> out = Inr \<lparr>QueryResult = None,
            WriteResult = Some \<lparr>RowsAffected = ra, LastInsertID = li\<rparr>,
            Warning = ''UNSAFE EXECUTION: This query bypassed safety checks. Ensure you understand the implications.'',
            SkippedCheck =
              (if isDangerousQuery sql then
                 if isSensitiveQuery sql
                 then ''dangerous query blocking, sensitive query blocking''
                 else ''dangerous query blocking''
               else if isSensitiveQuery sql then ''sensitive query blocking'' else ''none'')\<rparr>)"
      unfolding ExecuteUnsafe_resolved [OF res] by (auto split: sum.splits prod.splits)
    ultimately show ?thesis using k c gate False
      by (auto simp: errorKind_def)
  qed
qed

theorem unsafe_gates_witness:
  "ReadOnly sampleReadOnlyConn \<and> \<not> IsReadOnlyQueryType (DetectQueryType ''DELETE FROM t'') \<and>
   errorKind (fst (ExecuteUnsafe healthyDriver (NewManager sampleRegistry) ''replica''
                    ''DELETE FROM t'')) = Some ReadOnlyViolation \<and>
   calls (snd (ExecuteUnsafe healthyDriver (NewManager sampleRegistry) ''replica''
                    ''DELETE FROM t'')) =
     calls (snd (GetConnection healthyDriver (NewManager sampleRegistry) ''replica'')) \<and>
   \<not> ReadOnly sampleConn \<and>
   \<not> isl (fst (ExecuteUnsafe healthyDriver (NewManager sampleRegistry) ''main'' ''DROP TABLE t'')) \<and>
   SkippedCheck (projr (fst (ExecuteUnsafe healthyDriver (NewManager sampleRegistry) ''main''
                    ''DROP TABLE t''))) = ''dangerous query blocking'' \<and>
   QueryResult (projr (fst (ExecuteUnsafe healthyDriver (NewManager sampleRegistry) ''main''
                    ''DROP TABLE t''))) = None \<and>
   WriteResult (projr (fst (ExecuteUnsafe healthyDriver (NewManager sampleRegistry) ''main''
                    ''DROP TABLE t''))) \<noteq> None"
proof -
  let ?M = "NewManager sampleRegistry"
  let ?D = "ExecuteUnsafe healthyDriver ?M ''replica'' ''DELETE FROM t''"
  let ?T = "ExecuteUnsafe healthyDriver ?M ''main'' ''DROP TABLE t''"
  have ro: "ReadOnly sampleReadOnlyConn" by (simp add: sampleReadOnlyConn_def)
  have rw: "\<not> ReadOnly sampleConn" by (simp add: sampleConn_def)
  have a: "\<not> IsReadOnlyQueryType (DetectQueryType ''DELETE FROM t'')" by code_simp
  have b: "\<not> IsReadOnlyQueryType (DetectQueryType ''DROP TABLE t'')" by code_simp
  have c: "isDangerousQuery ''DROP TABLE t''" by code_simp
  have d: "\<not> isSensitiveQuery ''DROP TABLE t''" by code_simp
  have ok: "\<not> isl (fst ?T)" by code_simp
  then have runT: "?T = (Inr (projr (fst ?T)), snd ?T)" by (simp add: prod_eq_iff)
  have runD: "?D = (fst ?D, snd ?D)" by simp
  from unsafe_gates [OF sample_resolve_replica runD] ro a
  have 1: "errorKind (fst ?D) = Some ReadOnlyViolation \<and>
           calls (snd ?D) = calls (snd (GetConnection healthyDriver ?M ''replica''))"
    by (simp add: errorKind_def)
  from unsafe_gates [OF sample_resolve_main runT] rw b c d
  have 2: "SkippedCheck (projr (fst ?T)) = ''dangerous query blocking'' \<and>
           QueryResult (projr (fst ?T)) = None \<and> WriteResult (projr (fst ?T)) \<noteq> None"
    by simp
  show ?thesis using ro rw a ok 1 2 by simp
qed

end
